theory Spec2Isabelle
  imports Complex_Main
begin

section \<open>Tensors and the torch primitives used by \<open>models/mip_nerf.py\<close>\<close>

text \<open>
  A tensor is its shape together with its entries, read at an index (one position per
  dimension). Entries are real numbers, of which the float32 values are some. The
  elementwise arithmetic of \<open>MipNerf.forward\<close> rounds every result to float32; the
  rounding is a parameter of the model (\<open>float32\<close> below), with IEEE rounding
  (\<open>fl32\<close>) and exact arithmetic (the identity) as instances. The affine maps of the
  network are computed exactly: their rounding depends on the order of accumulation, and
  no property proved here depends on it. Python's own floats (the hyperparameters) are
  taken as exact. Only entries at indices inside the shape are meaningful.
\<close>

record tensor =
  shape :: "nat list"
  elt :: "nat list \<Rightarrow> real"

datatype error =
    NotImplementedError
  | ZeroDivisionError
  | IndexError
  | TypeError
  | RuntimeError
  | EinopsError
  | AssertionError

definition tmap :: "(real \<Rightarrow> real) \<Rightarrow> tensor \<Rightarrow> tensor" where
  "tmap f t = \<lparr>shape = shape t, elt = (\<lambda>idx. f (elt t idx))\<rparr>"

definition zeros_like :: "tensor \<Rightarrow> tensor" where
  "zeros_like t = \<lparr>shape = shape t, elt = (\<lambda>idx. 0)\<rparr>"

text \<open>
  \<open>torch.cat([a, b], dim=-1)\<close>: the tensors must agree on every dimension but the
  last; the entries of \<open>b\<close> follow those of \<open>a\<close> along the last dimension.
\<close>

definition cat :: "tensor \<Rightarrow> tensor \<Rightarrow> error + tensor" where
  "cat a b =
     (if shape a = [] \<or> shape b = [] \<or> butlast (shape a) \<noteq> butlast (shape b)
      then Inl RuntimeError
      else Inr \<lparr>shape = butlast (shape a) @ [last (shape a) + last (shape b)],
                elt = (\<lambda>idx. if last idx < last (shape a) then elt a idx
                             else elt b (butlast idx @ [last idx - last (shape a)]))\<rparr>)"

text \<open>
  \<open>einops.repeat(v, 'batch feature -> batch sample feature', sample=n)\<close>: the pattern
  needs a tensor of two dimensions; every sample of a ray reads the ray's own row.
\<close>

definition repeat :: "tensor \<Rightarrow> nat \<Rightarrow> error + tensor" where
  "repeat v n =
     (case shape v of
        [batch, feature] \<Rightarrow>
          Inr \<lparr>shape = [batch, n, feature],
               elt = (\<lambda>idx. case idx of [b, s, f] \<Rightarrow> elt v [b, f] | _ \<Rightarrow> 0)\<rparr>
      | _ \<Rightarrow> Inl EinopsError)"

subsection \<open>\<open>torch.nn.Linear\<close>, \<open>ReLU\<close>, \<open>Sigmoid\<close>, \<open>Softplus\<close>\<close>

record linear =
  in_features :: nat
  out_features :: nat
  weight :: "nat \<Rightarrow> nat \<Rightarrow> real"
  bias :: "nat \<Rightarrow> real"

text \<open>
  The values of the weights and biases (drawn at initialisation, changed by training)
  are opaque to the model code: they are read from a parameter store, one entry per
  linear layer of the network.
\<close>

datatype param_name = Layer nat | DensityLayer | ExtraLayer | ViewLayer nat | ColorLayer

type_synonym params = "param_name \<Rightarrow> (nat \<Rightarrow> nat \<Rightarrow> real) \<times> (nat \<Rightarrow> real)"

text \<open>
  \<open>torch.nn.Linear(dim_in, dim_out)\<close>: torch refuses a size that does not fit a signed
  64-bit integer, and a negative size. (Running out of memory for a large size is
  outside the model.)
\<close>

definition Linear :: "params \<Rightarrow> param_name \<Rightarrow> int \<Rightarrow> int \<Rightarrow> error + linear" where
  "Linear \<theta> nm dim_in dim_out =
     (if dim_in < - 9223372036854775808 \<or> 9223372036854775807 < dim_in
         \<or> dim_out < - 9223372036854775808 \<or> 9223372036854775807 < dim_out
      then Inl TypeError
      else if dim_in < 0 \<or> dim_out < 0 then Inl RuntimeError
      else Inr \<lparr>in_features = nat dim_in, out_features = nat dim_out,
                weight = fst (\<theta> nm), bias = snd (\<theta> nm)\<rparr>)"

text \<open>
  \<open>_xavier_init(linear)\<close> (lines 7-11): \<open>xavier_uniform_\<close> divides by the sum of the
  two sizes of the weight, so it raises when both are zero. The values it draws are in
  the parameter store.
\<close>

definition xavier_init :: "linear \<Rightarrow> error + linear" where
  "xavier_init l =
     (if in_features l + out_features l = 0 then Inl ZeroDivisionError else Inr l)"

text \<open>\<open>linear = torch.nn.Linear(dim_in, dim_out)\<close> followed by \<open>_xavier_init(linear)\<close>.\<close>

definition Linear_xavier :: "params \<Rightarrow> param_name \<Rightarrow> int \<Rightarrow> int \<Rightarrow> error + linear" where
  "Linear_xavier \<theta> nm dim_in dim_out =
     (case Linear \<theta> nm dim_in dim_out of Inl e \<Rightarrow> Inl e | Inr l \<Rightarrow> xavier_init l)"

text \<open>
  Applying a linear layer: the last dimension of the input must be \<open>in_features\<close>
  (torch raises otherwise, also on an empty batch); it becomes \<open>out_features\<close>.
\<close>

definition Linear_forward :: "linear \<Rightarrow> tensor \<Rightarrow> error + tensor" where
  "Linear_forward l t =
     (if shape t = [] \<or> last (shape t) \<noteq> in_features l then Inl RuntimeError
      else Inr \<lparr>shape = butlast (shape t) @ [out_features l],
                elt = (\<lambda>idx. sum_list (map (\<lambda>k. weight l (last idx) k * elt t (butlast idx @ [k]))
                                          [0..<in_features l])
                             + bias l (last idx))\<rparr>)"

definition ReLU :: "tensor \<Rightarrow> tensor" where
  "ReLU t = tmap (\<lambda>v. max 0 v) t"

text \<open>\<open>torch.nn.Sequential(linear, torch.nn.ReLU(True))\<close>\<close>

definition layer_forward :: "linear \<Rightarrow> tensor \<Rightarrow> error + tensor" where
  "layer_forward l t = (case Linear_forward l t of Inl e \<Rightarrow> Inl e | Inr y \<Rightarrow> Inr (ReLU y))"

definition sigmoid :: "real \<Rightarrow> real" where
  "sigmoid v = 1 / (1 + exp (- v))"

text \<open>\<open>torch.nn.Softplus()\<close> with its defaults (beta 1, threshold 20).\<close>

definition softplus :: "real \<Rightarrow> real" where
  "softplus v = (if v > 20 then v else ln (1 + exp v))"

datatype activation = Sigmoid | Softplus

text \<open>
  Applying an activation module to a float32 tensor, with the rounding \<open>fl\<close> of the
  results to float32.
\<close>

fun activation_forward :: "(real \<Rightarrow> real) \<Rightarrow> activation \<Rightarrow> tensor \<Rightarrow> tensor" where
  "activation_forward fl Sigmoid t = tmap (\<lambda>v. fl (sigmoid v)) t"
| "activation_forward fl Softplus t = tmap (\<lambda>v. fl (softplus v)) t"

subsection \<open>Rounding to float32\<close>




section \<open>The class \<open>MLP\<close>\<close>

record MLP =
  skip_index :: int
  layers :: "linear list"
  density_layer :: linear
  extra_layer :: linear
  view_layers :: "linear list"
  color_layer :: linear

text \<open>\<open>range(n)\<close> for a Python integer \<open>n\<close>: empty when \<open>n \<le> 0\<close>.\<close>

definition py_range :: "int \<Rightarrow> int list" where
  "py_range n = map int [0..<nat n]"

text \<open>
  The sizes of layer \<open>i\<close> of the first stack (lines 36-44). \<open>(i - 1) % skip_index\<close>
  is evaluated for every \<open>i \<noteq> 0\<close> and raises when \<open>skip_index\<close> is zero.
\<close>

definition layer_dims :: "int \<Rightarrow> int \<Rightarrow> int \<Rightarrow> int \<Rightarrow> error + (int \<times> int)" where
  "layer_dims i net_width skip xyz_dim =
     (if i = 0 then Inr (xyz_dim, net_width)
      else if skip = 0 then Inl ZeroDivisionError
      else if (i - 1) mod skip = 0 \<and> i > 1 then Inr (net_width + xyz_dim, net_width)
      else Inr (net_width, net_width))"

text \<open>The first loop of \<open>MLP.__init__\<close> (lines 35-50), over the indices still to come.\<close>

fun init_layers :: "params \<Rightarrow> string \<Rightarrow> int \<Rightarrow> int \<Rightarrow> int \<Rightarrow> int list \<Rightarrow> error + linear list" where
  "init_layers \<theta> act net_width skip xyz_dim [] = Inr []"
| "init_layers \<theta> act net_width skip xyz_dim (i # rest) =
     (case layer_dims i net_width skip xyz_dim of
        Inl e \<Rightarrow> Inl e
      | Inr (dim_in, dim_out) \<Rightarrow>
          (case Linear_xavier \<theta> (Layer (nat i)) dim_in dim_out of
             Inl e \<Rightarrow> Inl e
           | Inr l \<Rightarrow>
               if act = ''relu''
               then (case init_layers \<theta> act net_width skip xyz_dim rest of
                       Inl e \<Rightarrow> Inl e
                     | Inr ls \<Rightarrow> Inr (l # ls))
               else Inl NotImplementedError))"

definition view_layer_dims :: "int \<Rightarrow> int \<Rightarrow> int \<Rightarrow> int \<Rightarrow> int \<times> int" where
  "view_layer_dims i net_width net_width_condition view_dim =
     (if i = 0 then (net_width + view_dim, net_width_condition)
      else (net_width_condition, net_width_condition))"

text \<open>The second loop of \<open>MLP.__init__\<close> (lines 58-70).\<close>

fun init_view_layers :: "params \<Rightarrow> string \<Rightarrow> int \<Rightarrow> int \<Rightarrow> int \<Rightarrow> int list \<Rightarrow> error + linear list" where
  "init_view_layers \<theta> act net_width net_width_condition view_dim [] = Inr []"
| "init_view_layers \<theta> act net_width net_width_condition view_dim (i # rest) =
     (case view_layer_dims i net_width net_width_condition view_dim of
        (dim_in, dim_out) \<Rightarrow>
          (case Linear_xavier \<theta> (ViewLayer (nat i)) dim_in dim_out of
             Inl e \<Rightarrow> Inl e
           | Inr l \<Rightarrow>
               if act = ''relu''
               then (case init_view_layers \<theta> act net_width net_width_condition view_dim rest of
                       Inl e \<Rightarrow> Inl e
                     | Inr ls \<Rightarrow> Inr (l # ls))
               else Inl NotImplementedError))"

definition MLP_init ::
  "params \<Rightarrow> int \<Rightarrow> int \<Rightarrow> int \<Rightarrow> int \<Rightarrow> int \<Rightarrow> int \<Rightarrow> int \<Rightarrow> string \<Rightarrow> int \<Rightarrow> int \<Rightarrow> error + MLP" where
  "MLP_init \<theta> net_depth net_width net_depth_condition net_width_condition skip
            num_rgb_channels num_density_channels act xyz_dim view_dim =
     (case init_layers \<theta> act net_width skip xyz_dim (py_range net_depth) of
        Inl e \<Rightarrow> Inl e
      | Inr ls \<Rightarrow>
     (case Linear_xavier \<theta> DensityLayer net_width num_density_channels of
        Inl e \<Rightarrow> Inl e
      | Inr dl \<Rightarrow>
     (case Linear_xavier \<theta> ExtraLayer net_width net_width of
        Inl e \<Rightarrow> Inl e
      | Inr el \<Rightarrow>
     (case init_view_layers \<theta> act net_width net_width_condition view_dim
             (py_range net_depth_condition) of
        Inl e \<Rightarrow> Inl e
      | Inr vls \<Rightarrow>
     (case Linear \<theta> ColorLayer net_width_condition num_rgb_channels of
        Inl e \<Rightarrow> Inl e
      | Inr cl \<Rightarrow>
          Inr \<lparr>skip_index = skip, layers = ls, density_layer = dl, extra_layer = el,
               view_layers = vls, color_layer = cl\<rparr>)))))"

text \<open>
  The loop of \<open>MLP.forward\<close> (lines 94-97) from layer index \<open>i\<close> on. The test
  \<open>i % self.skip_index == 0\<close> is evaluated after every layer, so a zero
  \<open>skip_index\<close> raises there.
\<close>

fun run_layers :: "int \<Rightarrow> tensor \<Rightarrow> int \<Rightarrow> linear list \<Rightarrow> tensor \<Rightarrow> error + tensor" where
  "run_layers skip inputs i [] x = Inr x"
| "run_layers skip inputs i (layer # rest) x =
     (case layer_forward layer x of
        Inl e \<Rightarrow> Inl e
      | Inr x1 \<Rightarrow>
          if skip = 0 then Inl ZeroDivisionError
          else if i mod skip = 0 \<and> i > 0
          then (case cat x1 inputs of
                  Inl e \<Rightarrow> Inl e
                | Inr x2 \<Rightarrow> run_layers skip inputs (i + 1) rest x2)
          else run_layers skip inputs (i + 1) rest x1)"

text \<open>\<open>self.view_layers(x)\<close>: a \<open>Sequential\<close> of the layers of the second stack.\<close>

fun run_view_layers :: "linear list \<Rightarrow> tensor \<Rightarrow> error + tensor" where
  "run_view_layers [] x = Inr x"
| "run_view_layers (layer # rest) x =
     (case layer_forward layer x of Inl e \<Rightarrow> Inl e | Inr x1 \<Rightarrow> run_view_layers rest x1)"

text \<open>
  The first part of \<open>MLP.forward\<close> (lines 92-98): the first stack and the density
  head. It returns the stack's final hidden state and the raw density.
\<close>

definition MLP_trunk :: "MLP \<Rightarrow> tensor \<Rightarrow> error + (tensor \<times> tensor)" where
  "MLP_trunk m x =
     (case run_layers (skip_index m) x 0 (layers m) x of
        Inl e \<Rightarrow> Inl e
      | Inr x1 \<Rightarrow>
          (case Linear_forward (density_layer m) x1 of
             Inl e \<Rightarrow> Inl e
           | Inr raw_density \<Rightarrow> Inr (x1, raw_density)))"

text \<open>The second part (lines 99-110): view conditioning and the colour head.\<close>

definition MLP_head :: "MLP \<Rightarrow> nat \<Rightarrow> tensor \<Rightarrow> tensor option \<Rightarrow> error + tensor" where
  "MLP_head m num_samples x1 view_direction =
     (case view_direction of
        None \<Rightarrow> Linear_forward (color_layer m) x1
      | Some vd \<Rightarrow>
          (case Linear_forward (extra_layer m) x1 of
             Inl e \<Rightarrow> Inl e
           | Inr bottleneck \<Rightarrow>
          (case repeat vd num_samples of
             Inl e \<Rightarrow> Inl e
           | Inr v \<Rightarrow>
          (case cat bottleneck v of
             Inl e \<Rightarrow> Inl e
           | Inr x2 \<Rightarrow>
          (case run_view_layers (view_layers m) x2 of
             Inl e \<Rightarrow> Inl e
           | Inr x3 \<Rightarrow> Linear_forward (color_layer m) x3)))))"

text \<open>\<open>MLP.forward(x, view_direction=None)\<close>; \<open>x.shape[1]\<close> needs two dimensions.\<close>

definition MLP_forward :: "MLP \<Rightarrow> tensor \<Rightarrow> tensor option \<Rightarrow> error + (tensor \<times> tensor)" where
  "MLP_forward m x view_direction =
     (if length (shape x) < 2 then Inl IndexError
      else
        (case MLP_trunk m x of
           Inl e \<Rightarrow> Inl e
         | Inr (x1, raw_density) \<Rightarrow>
             (case MLP_head m (shape x ! 1) x1 view_direction of
                Inl e \<Rightarrow> Inl e
              | Inr raw_rgb \<Rightarrow> Inr (raw_rgb, raw_density))))"

section \<open>The module \<open>models.mip\<close> and the global random generator\<close>

text \<open>
  \<open>models/mip_nerf.py\<close> imports \<open>sample_along_rays\<close>, \<open>resample_along_rays\<close>,
  \<open>integrated_pos_enc\<close>, \<open>pos_enc\<close> and \<open>volumetric_rendering\<close> from
  \<open>models.mip\<close>, and draws the density noise with \<open>torch.randn\<close>. The model takes
  them as parameters: a record of the functions, each of which may raise. The two
  samplers and \<open>torch.randn\<close> draw from torch's global generator, whose state
  \<open>'g\<close> they read and advance; \<open>torch.randn\<close> is given a shape and yields the
  entries of a tensor of that shape. The record also holds \<open>float32\<close>, the rounding of
  torch's elementwise float32 arithmetic.
\<close>

type_synonym means_covs = "tensor \<times> tensor"

record 'g mip =
  sample_along_rays ::
    "tensor \<Rightarrow> tensor \<Rightarrow> tensor \<Rightarrow> int \<Rightarrow> tensor \<Rightarrow> tensor \<Rightarrow> bool \<Rightarrow> bool \<Rightarrow> string \<Rightarrow>
     'g \<Rightarrow> error + ((tensor \<times> means_covs) \<times> 'g)"
  resample_along_rays ::
    "tensor \<Rightarrow> tensor \<Rightarrow> tensor \<Rightarrow> tensor \<Rightarrow> tensor \<Rightarrow> bool \<Rightarrow> string \<Rightarrow> bool \<Rightarrow> real \<Rightarrow>
     'g \<Rightarrow> error + ((tensor \<times> means_covs) \<times> 'g)"
  integrated_pos_enc :: "means_covs \<Rightarrow> int \<Rightarrow> int \<Rightarrow> error + tensor"
  pos_enc :: "tensor \<Rightarrow> int \<Rightarrow> int \<Rightarrow> bool \<Rightarrow> error + tensor"
  volumetric_rendering ::
    "tensor \<Rightarrow> tensor \<Rightarrow> tensor \<Rightarrow> tensor \<Rightarrow> bool \<Rightarrow>
     error + (tensor \<times> tensor \<times> tensor \<times> tensor)"
  randn :: "nat list \<Rightarrow> 'g \<Rightarrow> (nat list \<Rightarrow> real) \<times> 'g"
  float32 :: "real \<Rightarrow> real"

record rays =
  origins :: tensor
  directions :: tensor
  viewdirs :: tensor
  radii :: tensor
  near :: tensor
  far :: tensor

section \<open>The class \<open>MipNerf\<close>\<close>

text \<open>
  The attributes that \<open>MipNerf.__init__\<close> copies from its arguments unchanged
  (lines 143-155 and 166). The argument record and the object record both extend it.
\<close>

record hparams =
  num_samples :: int
  num_levels :: int
  resample_padding :: real
  stop_resample_grad :: bool
  use_viewdirs :: bool
  disparity :: bool
  ray_shape :: string
  min_deg_point :: int
  max_deg_point :: int
  deg_view :: int
  density_noise :: real
  density_bias :: real
  rgb_padding :: real
  disable_integration :: bool

text \<open>The remaining arguments of \<open>MipNerf.__init__\<close>.\<close>

record args = hparams +
  density_activation :: string
  rgb_activation :: string
  append_identity :: bool
  mlp_net_depth :: int
  mlp_net_width :: int
  mlp_net_depth_condition :: int
  mlp_net_width_condition :: int
  mlp_skip_index :: int
  mlp_num_rgb_channels :: int
  mlp_num_density_channels :: int
  mlp_net_activation :: string

text \<open>
  The constructed object: the copied attributes, \<open>self.mlp\<close>, and the two activation
  modules \<open>self.rgb_activation\<close> and \<open>self.density_activation\<close>.
\<close>

record MipNerf = hparams +
  mlp :: MLP
  rgb_activation_module :: activation
  density_activation_module :: activation

text \<open>The default values of the arguments (lines 117-141).\<close>

definition default_args :: args where
  "default_args =
     \<lparr>num_samples = 128, num_levels = 2, resample_padding = 0.01,
      stop_resample_grad = True, use_viewdirs = True, disparity = False,
      ray_shape = ''cone'', min_deg_point = 0, max_deg_point = 16, deg_view = 4,
      density_noise = 0, density_bias = - 1, rgb_padding = 0.001,
      disable_integration = False,
      density_activation = ''softplus'', rgb_activation = ''sigmoid'',
      append_identity = True, mlp_net_depth = 8, mlp_net_width = 256,
      mlp_net_depth_condition = 1, mlp_net_width_condition = 128, mlp_skip_index = 4,
      mlp_num_rgb_channels = 3, mlp_num_density_channels = 1,
      mlp_net_activation = ''relu''\<rparr>"

definition mlp_xyz_dim :: "args \<Rightarrow> int" where
  "mlp_xyz_dim a = (max_deg_point a - min_deg_point a) * 3 * 2"

definition mlp_view_dim :: "args \<Rightarrow> int" where
  "mlp_view_dim a =
     (let d = deg_view a * 3 * 2 in if append_identity a then d + 3 else d)"

text \<open>\<open>MipNerf.__init__\<close> (lines 142-170).\<close>

definition MipNerf_init :: "params \<Rightarrow> args \<Rightarrow> error + MipNerf" where
  "MipNerf_init \<theta> a =
     (case MLP_init \<theta> (mlp_net_depth a) (mlp_net_width a) (mlp_net_depth_condition a)
             (mlp_net_width_condition a) (mlp_skip_index a) (mlp_num_rgb_channels a)
             (mlp_num_density_channels a) (mlp_net_activation a)
             (mlp_xyz_dim a) (mlp_view_dim a) of
        Inl e \<Rightarrow> Inl e
      | Inr net \<Rightarrow>
          if rgb_activation a = ''sigmoid''
          then (if density_activation a = ''softplus''
                then Inr \<lparr>num_samples = num_samples a, num_levels = num_levels a,
                          resample_padding = resample_padding a,
                          stop_resample_grad = stop_resample_grad a,
                          use_viewdirs = use_viewdirs a, disparity = disparity a,
                          ray_shape = ray_shape a, min_deg_point = min_deg_point a,
                          max_deg_point = max_deg_point a, deg_view = deg_view a,
                          density_noise = density_noise a, density_bias = density_bias a,
                          rgb_padding = rgb_padding a,
                          disable_integration = disable_integration a,
                          mlp = net, rgb_activation_module = Sigmoid,
                          density_activation_module = Softplus\<rparr>
                else Inl NotImplementedError)
          else Inl NotImplementedError)"

subsection \<open>\<open>MipNerf.forward\<close>\<close>

text \<open>One entry of the returned list: \<open>(comp_rgb, distance, acc, weights, t_samples)\<close>.\<close>

type_synonym render_output = "tensor \<times> tensor \<times> tensor \<times> tensor \<times> tensor"

definition out_weights :: "render_output \<Rightarrow> tensor" where
  "out_weights r = (case r of (comp_rgb, distance, acc, weights, t_samples) \<Rightarrow> weights)"

definition out_t_samples :: "render_output \<Rightarrow> tensor" where
  "out_t_samples r = (case r of (comp_rgb, distance, acc, weights, t_samples) \<Rightarrow> t_samples)"

text \<open>
  Lines 186-210: the stratified sampler at level 0, the resampler at every later level,
  fed with the \<open>t_samples\<close> and \<open>weights\<close> the loop holds. Both start as \<open>None\<close>
  (line 183) and are set by level 0, which always comes first.
\<close>

definition draw_samples ::
  "'g mip \<Rightarrow> 'a MipNerf_scheme \<Rightarrow> rays \<Rightarrow> bool \<Rightarrow> int \<Rightarrow> (tensor \<times> tensor) option \<Rightarrow>
   'g \<Rightarrow> error + ((tensor \<times> means_covs) \<times> 'g)" where
  "draw_samples M self rs randomized i_level prev g =
     (if i_level = 0
      then sample_along_rays M (origins rs) (directions rs) (radii rs) (num_samples self)
             (near rs) (far rs) randomized (disparity self) (ray_shape self) g
      else (case prev of
              None \<Rightarrow> Inl TypeError
            | Some (t_samples, weights) \<Rightarrow>
                resample_along_rays M (origins rs) (directions rs) (radii rs) t_samples weights
                  randomized (ray_shape self) (stop_resample_grad self)
                  (resample_padding self) g))"

text \<open>Lines 211-217: the encoding of the samples.\<close>

definition encode_samples :: "'g mip \<Rightarrow> 'a MipNerf_scheme \<Rightarrow> means_covs \<Rightarrow> error + tensor" where
  "encode_samples M self means_covs =
     integrated_pos_enc M
       (if disable_integration self then (fst means_covs, zeros_like (snd means_covs))
        else means_covs)
       (min_deg_point self) (max_deg_point self)"

text \<open>Lines 220-229: the encoding of the view directions and the network.\<close>

definition predict ::
  "'g mip \<Rightarrow> MipNerf \<Rightarrow> rays \<Rightarrow> tensor \<Rightarrow> error + (tensor \<times> tensor)" where
  "predict M self rs samples_enc =
     (if use_viewdirs self
      then (case pos_enc M (viewdirs rs) 0 (deg_view self) True of
              Inl e \<Rightarrow> Inl e
            | Inr viewdirs_enc \<Rightarrow> MLP_forward (mlp self) samples_enc (Some viewdirs_enc))
      else MLP_forward (mlp self) samples_enc None)"

text \<open>
  Lines 232-233: the density noise. The product of the scalar \<open>self.density_noise\<close>
  and the float32 tensor of the draws is a float32 tensor, added in place.
\<close>

definition add_noise ::
  "'g mip \<Rightarrow> 'a MipNerf_scheme \<Rightarrow> bool \<Rightarrow> tensor \<Rightarrow> 'g \<Rightarrow> tensor \<times> 'g" where
  "add_noise M self randomized raw_density g =
     (if randomized \<and> density_noise self > 0
      then (case randn M (shape raw_density) g of
              (z, g') \<Rightarrow>
                (\<lparr>shape = shape raw_density,
                  elt = (\<lambda>idx. float32 M (elt raw_density idx
                                 + float32 M (float32 M (density_noise self) * z idx)))\<rparr>, g'))
      else (raw_density, g))"

text \<open>
  Lines 236-238: the colours and densities handed to the integrator. A Python scalar
  that meets a float32 tensor is converted to float32, and each operation rounds.
\<close>

definition rgb_of :: "'g mip \<Rightarrow> MipNerf \<Rightarrow> tensor \<Rightarrow> tensor" where
  "rgb_of M self raw_rgb =
     tmap (\<lambda>v. float32 M (float32 M (v * float32 M (1 + 2 * rgb_padding self))
                          - float32 M (rgb_padding self)))
       (activation_forward (float32 M) (rgb_activation_module self) raw_rgb)"

definition density_of :: "'g mip \<Rightarrow> MipNerf \<Rightarrow> tensor \<Rightarrow> tensor" where
  "density_of M self raw_density =
     activation_forward (float32 M) (density_activation_module self)
       (tmap (\<lambda>v. float32 M (v + float32 M (density_bias self))) raw_density)"

text \<open>The body of the loop over the levels (lines 185-246), for one level.\<close>

definition level ::
  "'g mip \<Rightarrow> MipNerf \<Rightarrow> rays \<Rightarrow> bool \<Rightarrow> bool \<Rightarrow> int \<Rightarrow> (tensor \<times> tensor) option \<Rightarrow>
   'g \<Rightarrow> error + (render_output \<times> 'g)" where
  "level M self rs randomized white_bkgd i_level prev g =
     (case draw_samples M self rs randomized i_level prev g of
        Inl e \<Rightarrow> Inl e
      | Inr ((t_samples, means_covs), g1) \<Rightarrow>
     (case encode_samples M self means_covs of
        Inl e \<Rightarrow> Inl e
      | Inr samples_enc \<Rightarrow>
     (case predict M self rs samples_enc of
        Inl e \<Rightarrow> Inl e
      | Inr (raw_rgb, raw_density) \<Rightarrow>
     (case add_noise M self randomized raw_density g1 of
        (raw_density', g2) \<Rightarrow>
     (case volumetric_rendering M (rgb_of M self raw_rgb) (density_of M self raw_density')
             t_samples (directions rs) white_bkgd of
        Inl e \<Rightarrow> Inl e
      | Inr (comp_rgb, distance, acc, weights) \<Rightarrow>
          Inr ((comp_rgb, distance, acc, weights, t_samples), g2))))))"

text \<open>
  The loop over the levels still to run: \<open>prev\<close> is the pair \<open>(t_samples, weights)\<close>
  left by the level before, \<open>ret\<close> the list built so far.
\<close>

fun forward_levels ::
  "'g mip \<Rightarrow> MipNerf \<Rightarrow> rays \<Rightarrow> bool \<Rightarrow> bool \<Rightarrow> int list \<Rightarrow> (tensor \<times> tensor) option \<Rightarrow>
   render_output list \<Rightarrow> 'g \<Rightarrow> error + (render_output list \<times> 'g)" where
  "forward_levels M self rs randomized white_bkgd [] prev ret g = Inr (ret, g)"
| "forward_levels M self rs randomized white_bkgd (i_level # rest) prev ret g =
     (case level M self rs randomized white_bkgd i_level prev g of
        Inl e \<Rightarrow> Inl e
      | Inr (out, g') \<Rightarrow>
          forward_levels M self rs randomized white_bkgd rest
            (Some (out_t_samples out, out_weights out)) (ret @ [out]) g')"

text \<open>\<open>MipNerf.forward(rays, randomized, white_bkgd)\<close>, run from the generator state \<open>g\<close>.\<close>

definition forward ::
  "'g mip \<Rightarrow> MipNerf \<Rightarrow> rays \<Rightarrow> bool \<Rightarrow> bool \<Rightarrow> 'g \<Rightarrow> error + (render_output list \<times> 'g)" where
  "forward M self rs randomized white_bkgd g =
     forward_levels M self rs randomized white_bkgd (py_range (num_levels self)) None [] g"

section \<open>The functions of \<open>models.mip\<close>, after the specification\<close>

text \<open>
  Modelled from the spec: \<open>pos_enc\<close> and \<open>integrated_pos_enc\<close> of \<open>models.mip\<close>,
  which is not among the sources. Section 4.2: for every frequency \<open>2^j\<close> with
  \<open>min_deg \<le> j < max_deg\<close> and every one of the three axes, a sine then a cosine,
  frequency-major; the integrated variant scales both by \<open>exp (- 1/2 * 4^j * variance)\<close>;
  the plain variant can append the raw components. Section 3: the encoding has
  \<open>2 * 3 * (max_deg - min_deg)\<close> entries, and three more with the raw components.
\<close>

definition wave :: "nat \<Rightarrow> int \<Rightarrow> real \<Rightarrow> real" where
  "wave k j v = (if even k then sin (2 powr (real_of_int j) * v) else cos (2 powr (real_of_int j) * v))"

definition pos_enc_spec :: "tensor \<Rightarrow> int \<Rightarrow> int \<Rightarrow> bool \<Rightarrow> tensor" where
  "pos_enc_spec x min_deg max_deg append_id =
     \<lparr>shape = butlast (shape x) @
               [2 * 3 * nat (max_deg - min_deg) + (if append_id then 3 else 0)],
      elt = (\<lambda>idx.
               if append_id \<and> 2 * 3 * nat (max_deg - min_deg) \<le> last idx
               then elt x (butlast idx @ [last idx - 2 * 3 * nat (max_deg - min_deg)])
               else wave (last idx) (min_deg + int (last idx div 6))
                      (elt x (butlast idx @ [(last idx mod 6) div 2])))\<rparr>"

definition integrated_pos_enc_spec :: "means_covs \<Rightarrow> int \<Rightarrow> int \<Rightarrow> tensor" where
  "integrated_pos_enc_spec means_covs min_deg max_deg =
     (case means_covs of
        (means, covs) \<Rightarrow>
          \<lparr>shape = butlast (shape means) @ [2 * 3 * nat (max_deg - min_deg)],
           elt = (\<lambda>idx.
                    wave (last idx) (min_deg + int (last idx div 6))
                      (elt means (butlast idx @ [(last idx mod 6) div 2]))
                    * exp (- (1 / 2) * 4 powr (real_of_int (min_deg + int (last idx div 6)))
                           * elt covs (butlast idx @ [(last idx mod 6) div 2])))\<rparr>)"

text \<open>
  Modelled from the spec: the compositing sum of \<open>volumetric_rendering\<close> (section 4.6,
  step 7): the colour of ray \<open>b\<close> in channel \<open>c\<close> is the sum over its \<open>n\<close> samples of
  weight times sample colour, before any background is added.
\<close>

definition composite :: "tensor \<Rightarrow> tensor \<Rightarrow> nat \<Rightarrow> nat \<Rightarrow> nat \<Rightarrow> real" where
  "composite weights rgb n b c =
     sum_list (map (\<lambda>s. elt weights [b, s] * elt rgb [b, s, c]) [0..<n])"

text \<open>
  Modelled from the spec: \<open>volumetric_rendering\<close> (section 4.6, steps 3 to 8), with
  the expected distance left unnormalised and read at the midpoints of the intervals.
\<close>

definition interval_width :: "tensor \<Rightarrow> tensor \<Rightarrow> nat \<Rightarrow> nat \<Rightarrow> real" where
  "interval_width t_samples dirs b s =
     (elt t_samples [b, Suc s] - elt t_samples [b, s])
     * sqrt (sum_list (map (\<lambda>c. (elt dirs [b, c])\<^sup>2) [0..<3]))"

definition alpha :: "tensor \<Rightarrow> tensor \<Rightarrow> tensor \<Rightarrow> nat \<Rightarrow> nat \<Rightarrow> real" where
  "alpha density t_samples dirs b s =
     1 - exp (- elt density [b, s, 0] * interval_width t_samples dirs b s)"

definition weight_of :: "tensor \<Rightarrow> tensor \<Rightarrow> tensor \<Rightarrow> nat \<Rightarrow> nat \<Rightarrow> real" where
  "weight_of density t_samples dirs b s =
     alpha density t_samples dirs b s
     * prod_list (map (\<lambda>j. 1 - alpha density t_samples dirs b j) [0..<s])"

definition volumetric_rendering_spec ::
  "tensor \<Rightarrow> tensor \<Rightarrow> tensor \<Rightarrow> tensor \<Rightarrow> bool \<Rightarrow> tensor \<times> tensor \<times> tensor \<times> tensor" where
  "volumetric_rendering_spec rgb density t_samples dirs white_bkgd =
     (let batch = (case shape rgb of [] \<Rightarrow> 0 | b # _ \<Rightarrow> b);
          n = (case shape rgb of b # s # _ \<Rightarrow> s | _ \<Rightarrow> 0);
          weights = \<lparr>shape = [batch, n],
                     elt = (\<lambda>idx. case idx of [b, s] \<Rightarrow> weight_of density t_samples dirs b s
                                   | _ \<Rightarrow> 0)\<rparr>;
          acc = \<lparr>shape = [batch],
                 elt = (\<lambda>idx. case idx of [b] \<Rightarrow> sum_list (map (\<lambda>s. elt weights [b, s]) [0..<n])
                               | _ \<Rightarrow> 0)\<rparr>;
          distance = \<lparr>shape = [batch],
                      elt = (\<lambda>idx. case idx of
                                [b] \<Rightarrow> sum_list (map (\<lambda>s. elt weights [b, s]
                                           * ((elt t_samples [b, s] + elt t_samples [b, Suc s]) / 2))
                                         [0..<n])
                              | _ \<Rightarrow> 0)\<rparr>;
          comp_rgb = \<lparr>shape = [batch, 3],
                      elt = (\<lambda>idx. case idx of
                                [b, c] \<Rightarrow> composite weights rgb n b c
                                          + (if white_bkgd then 1 - elt acc [b] else 0)
                              | _ \<Rightarrow> 0)\<rparr>
      in (comp_rgb, distance, acc, weights))"

section \<open>A small instance\<close>

text \<open>
  An instance to run the model on: parameters that are all zero, a generator whose
  state counts the draws made so far, samplers that place the depths evenly between
  \<open>near\<close> and \<open>far\<close> (shifted by a draw when randomized) and refuse a ray shape
  other than \<open>cone\<close> and \<open>cylinder\<close>, the encoders and the integrator above, and
  exact arithmetic.
\<close>

definition zero_params :: params where
  "zero_params = (\<lambda>nm. ((\<lambda>r c. 0), (\<lambda>r. 0)))"

definition example_frustums :: "tensor \<Rightarrow> tensor \<Rightarrow> tensor \<Rightarrow> tensor \<Rightarrow> nat \<Rightarrow> means_covs" where
  "example_frustums os ds rad t n =
     (let batch = (case shape os of [] \<Rightarrow> 0 | b # _ \<Rightarrow> b)
      in (\<lparr>shape = [batch, n, 3],
           elt = (\<lambda>idx. case idx of
                     [b, s, c] \<Rightarrow> elt os [b, c] + elt ds [b, c] * ((elt t [b, s] + elt t [b, Suc s]) / 2)
                   | _ \<Rightarrow> 0)\<rparr>,
          \<lparr>shape = [batch, n, 3],
           elt = (\<lambda>idx. case idx of [b, s, c] \<Rightarrow> (elt rad [b, 0])\<^sup>2 | _ \<Rightarrow> 0)\<rparr>))"

definition example_sample ::
  "tensor \<Rightarrow> tensor \<Rightarrow> tensor \<Rightarrow> int \<Rightarrow> tensor \<Rightarrow> tensor \<Rightarrow> bool \<Rightarrow> bool \<Rightarrow> string \<Rightarrow>
   nat \<Rightarrow> error + ((tensor \<times> means_covs) \<times> nat)" where
  "example_sample os ds rad n nr fr randomized disp shp g =
     (if shp \<noteq> ''cone'' \<and> shp \<noteq> ''cylinder'' then Inl AssertionError
      else
        (let batch = (case shape os of [] \<Rightarrow> 0 | b # _ \<Rightarrow> b);
             t = \<lparr>shape = [batch, nat n + 1],
                  elt = (\<lambda>idx. case idx of
                            [b, s] \<Rightarrow> elt nr [b, 0]
                                      + (elt fr [b, 0] - elt nr [b, 0]) * real s / real_of_int n
                                      + (if randomized then real g / 100 else 0)
                          | _ \<Rightarrow> 0)\<rparr>
         in Inr ((t, example_frustums os ds rad t (nat n)), if randomized then Suc g else g)))"

definition example_resample ::
  "tensor \<Rightarrow> tensor \<Rightarrow> tensor \<Rightarrow> tensor \<Rightarrow> tensor \<Rightarrow> bool \<Rightarrow> string \<Rightarrow> bool \<Rightarrow> real \<Rightarrow>
   nat \<Rightarrow> error + ((tensor \<times> means_covs) \<times> nat)" where
  "example_resample os ds rad t_samples weights randomized shp stop_grad padding g =
     (if shp \<noteq> ''cone'' \<and> shp \<noteq> ''cylinder'' then Inl AssertionError
      else
        (let t = \<lparr>shape = shape t_samples,
                  elt = (\<lambda>idx. elt t_samples idx + (if randomized then real g / 100 else 0))\<rparr>
         in Inr ((t, example_frustums os ds rad t (last (shape t_samples) - 1)),
                 if randomized then Suc g else g)))"

definition example_mip :: "nat mip" where
  "example_mip =
     \<lparr>sample_along_rays = example_sample,
      resample_along_rays = example_resample,
      integrated_pos_enc = (\<lambda>mc lo hi. Inr (integrated_pos_enc_spec mc lo hi)),
      pos_enc = (\<lambda>x lo hi ai. Inr (pos_enc_spec x lo hi ai)),
      volumetric_rendering = (\<lambda>rgb density t ds wb. Inr (volumetric_rendering_spec rgb density t ds wb)),
      randn = (\<lambda>shp g. ((\<lambda>idx. 1 + real g), Suc g)),
      float32 = (\<lambda>x. x)\<rparr>"

text \<open>One ray from the origin along the first axis, between depths 0 and 1.\<close>

definition example_rays :: rays where
  "example_rays =
     \<lparr>origins = \<lparr>shape = [1, 3], elt = (\<lambda>idx. 0)\<rparr>,
      directions = \<lparr>shape = [1, 3], elt = (\<lambda>idx. if idx = [0, 0] then 1 else 0)\<rparr>,
      viewdirs = \<lparr>shape = [1, 3], elt = (\<lambda>idx. if idx = [0, 0] then 1 else 0)\<rparr>,
      radii = \<lparr>shape = [1, 1], elt = (\<lambda>idx. 1 / 100)\<rparr>,
      near = \<lparr>shape = [1, 1], elt = (\<lambda>idx. 0)\<rparr>,
      far = \<lparr>shape = [1, 1], elt = (\<lambda>idx. 1)\<rparr>\<rparr>"

text \<open>A small network: one sample per ray, one frequency, two layers of width 2.\<close>

definition small_args :: args where
  "small_args =
     default_args\<lparr>num_samples := 1, max_deg_point := 1, deg_view := 1,
                  mlp_net_depth := 2, mlp_net_width := 2,
                  mlp_net_depth_condition := 1, mlp_net_width_condition := 2\<rparr>"

text \<open>The model that the constructor builds from the arguments \<open>a\<close> and zero parameters.\<close>

definition example_model :: "args \<Rightarrow> MipNerf" where
  "example_model a = projr (MipNerf_init zero_params a)"

text \<open>
  A network of depth 4 and width 2 with a skip every 2 layers, for inputs of width 2 and
  view encodings of width 1.
\<close>

definition example_mlp :: MLP where
  "example_mlp = projr (MLP_init zero_params 4 2 1 2 2 3 1 ''relu'' 2 1)"

text \<open>
  The network of the default configuration but for a depth of 5: with a skip every 4
  layers, its last layer is a skip layer.
\<close>

definition depth5_mlp :: MLP where
  "depth5_mlp = projr (MLP_init zero_params 5 256 1 128 4 3 1 ''relu'' 96 27)"

section \<open>Notions used to state the properties\<close>

text \<open>
  A computation run from a generator state ignores the generator when its result is
  the same from every state and it leaves the state as it found it.
\<close>

definition ignores_generator :: "('g \<Rightarrow> error + ('a \<times> 'g)) \<Rightarrow> bool" where
  "ignores_generator f \<longleftrightarrow>
     (\<forall>g g0. f g = (case f g0 of Inl e \<Rightarrow> Inl e | Inr (v, g1) \<Rightarrow> Inr (v, g)))"


text \<open>
  Two calls of \<open>forward\<close> in a row with the same arguments: the second call starts
  from the generator state that the first one left.
\<close>

definition two_calls ::
  "'g mip \<Rightarrow> MipNerf \<Rightarrow> rays \<Rightarrow> bool \<Rightarrow> bool \<Rightarrow> 'g \<Rightarrow>
   error + (render_output list \<times> render_output list)" where
  "two_calls M self rs randomized white_bkgd g =
     (case forward M self rs randomized white_bkgd g of
        Inl e \<Rightarrow> Inl e
      | Inr (ret1, g1) \<Rightarrow>
          (case forward M self rs randomized white_bkgd g1 of
             Inl e \<Rightarrow> Inl e
           | Inr (ret2, g2) \<Rightarrow> Inr (ret1, ret2)))"

section \<open>Evaluation lemmas\<close>

lemma py_range_simps: "py_range 0 = []" "py_range 1 = [0]" "py_range 2 = [0, 1]"
  by (simp_all add: py_range_def upt_rec)

lemma py_range_4: "py_range 4 = [0, 1, 2, 3]"
  by (simp add: py_range_def upt_rec)

lemma py_range_5: "py_range 5 = [0, 1, 2, 3, 4]"
  by (simp add: py_range_def upt_rec)

lemma py_range_8: "py_range 8 = [0, 1, 2, 3, 4, 5, 6, 7]"
  by (simp add: py_range_def upt_rec)

lemma py_range_pos: "0 < n \<Longrightarrow> py_range n = 0 # map int [1..<nat n]"
  by (simp add: py_range_def upt_conv_Cons)

lemma py_range_nonpos: "n \<le> 0 \<Longrightarrow> py_range n = []"
  by (simp add: py_range_def)

lemmas init_defs = MipNerf_init_def MLP_init_def layer_dims_def
  Linear_xavier_def xavier_init_def Linear_def view_layer_dims_def zero_params_def mlp_xyz_dim_def mlp_view_dim_def
  small_args_def default_args_def example_model_def example_mlp_def
  depth5_mlp_def py_range_simps py_range_4 py_range_5 py_range_8

lemmas mlp_defs = MLP_forward_def MLP_trunk_def MLP_head_def layer_forward_def
  Linear_forward_def ReLU_def tmap_def repeat_def cat_def

lemmas forward_defs = forward_def level_def draw_samples_def encode_samples_def predict_def
  add_noise_def rgb_of_def density_of_def example_mip_def example_sample_def
  example_resample_def example_frustums_def example_rays_def integrated_pos_enc_spec_def
  pos_enc_spec_def volumetric_rendering_spec_def out_weights_def out_t_samples_def

lemma Inr_projr: "\<not> isl x \<Longrightarrow> x = Inr (fst (projr x), snd (projr x))"
  by (cases x) auto

section \<open>The network\<close>

lemma Linear_InrD:
  "Linear_xavier \<theta> nm din dout = Inr l \<Longrightarrow>
     0 \<le> din \<and> 0 \<le> dout \<and> in_features l = nat din \<and> out_features l = nat dout"
  by (auto simp: Linear_xavier_def Linear_def xavier_init_def split: if_splits sum.splits)

lemma layer_forward_shape:
  "shape x = pre @ [in_features l] \<Longrightarrow>
     \<exists>y. layer_forward l x = Inr y \<and> shape y = pre @ [out_features l]"
  by (simp add: layer_forward_def Linear_forward_def ReLU_def tmap_def)

lemma cat_shape:
  "shape a = pre @ [wa] \<Longrightarrow> shape b = pre @ [wb] \<Longrightarrow>
     \<exists>y. cat a b = Inr y \<and> shape y = pre @ [wa + wb]"
  by (simp add: cat_def)

lemma layer_dims_next:
  "skip \<noteq> 0 \<Longrightarrow>
     layer_dims (int (Suc k)) nw skip xyz =
       Inr (if int k mod skip = 0 \<and> 0 < k then nw + xyz else nw, nw)"
  by (auto simp: layer_dims_def)

lemma layer_dims_out:
  "layer_dims i nw skip xyz = Inr (din, dout) \<Longrightarrow> dout = nw"
  by (auto simp: layer_dims_def split: if_splits)

lemma init_layers_ConsD:
  assumes "init_layers \<theta> act nw skip xyz (i # rest) = Inr ls"
  obtains din dout l ls' where
    "layer_dims i nw skip xyz = Inr (din, dout)"
    "Linear_xavier \<theta> (Layer (nat i)) din dout = Inr l"
    "act = ''relu''"
    "init_layers \<theta> act nw skip xyz rest = Inr ls'"
    "ls = l # ls'"
  using assms by (auto split: sum.splits if_splits prod.splits)

text \<open>
  The invariant of the first stack: the tensor that enters layer \<open>k\<close> has the width
  that the constructor gave layer \<open>k\<close> as its input size.
\<close>

lemma run_init_layers:
  assumes "init_layers \<theta> act nw skip xyz (map int [k..<n]) = Inr ls"
    and "skip \<noteq> 0" and "0 \<le> xyz" and "k \<le> n"
    and "shape inputs = pre @ [nat xyz]"
    and "layer_dims (int k) nw skip xyz = Inr (din, dout)"
    and "shape x = pre @ [nat din]"
  shows "\<exists>y din' dout'. run_layers skip inputs (int k) ls x = Inr y \<and>
           layer_dims (int n) nw skip xyz = Inr (din', dout') \<and> shape y = pre @ [nat din']"
  using assms
proof (induction "n - k" arbitrary: k x ls din dout)
  case 0
  then have "k = n" and "ls = []" by auto
  with 0 show ?case by auto
next
  case (Suc d)
  then have kn: "k < n" by linarith
  then have upt: "map int [k..<n] = int k # map int [Suc k..<n]"
    by (simp add: upt_conv_Cons)
  from Suc.prems(1)[unfolded upt]
  obtain din0 dout0 l ls' where
    d0: "layer_dims (int k) nw skip xyz = Inr (din0, dout0)"
    and lin: "Linear_xavier \<theta> (Layer (nat (int k))) din0 dout0 = Inr l"
    and rest: "init_layers \<theta> act nw skip xyz (map int [Suc k..<n]) = Inr ls'"
    and ls: "ls = l # ls'"
    by (rule init_layers_ConsD)
  from d0 Suc.prems(6) have [simp]: "din0 = din" "dout0 = dout" by auto
  from layer_dims_out[OF d0] have [simp]: "dout = nw" by simp
  from Linear_InrD[OF lin] have nn: "0 \<le> din" "0 \<le> nw"
    and feat: "in_features l = nat din" "out_features l = nat nw" by auto
  from Suc.prems(7) feat have "shape x = pre @ [in_features l]" by simp
  from layer_forward_shape[OF this] feat obtain x1 where
    x1: "layer_forward l x = Inr x1" "shape x1 = pre @ [nat nw]" by auto
  have next_dims: "layer_dims (int (Suc k)) nw skip xyz =
       Inr (if int k mod skip = 0 \<and> 0 < k then nw + xyz else nw, nw)"
    by (rule layer_dims_next[OF Suc.prems(2)])
  have d: "d = n - Suc k" using Suc.hyps(2) by simp
  have le: "Suc k \<le> n" using kn by simp
  show ?case
  proof (cases "int k mod skip = 0 \<and> 0 < k")
    case True
    from cat_shape[OF x1(2) Suc.prems(5)] obtain x2 where
      x2: "cat x1 inputs = Inr x2" "shape x2 = pre @ [nat nw + nat xyz]" by auto
    have w: "nat nw + nat xyz = nat (nw + xyz)"
      using nn Suc.prems(3) by (simp add: nat_add_distrib)
    from True next_dims have nd: "layer_dims (int (Suc k)) nw skip xyz = Inr (nw + xyz, nw)"
      by simp
    from x2(2) w have sx2: "shape x2 = pre @ [nat (nw + xyz)]" by simp
    from Suc.hyps(1)[OF d rest Suc.prems(2) Suc.prems(3) le Suc.prems(5) nd sx2]
    obtain y din' dout' where
      "run_layers skip inputs (int (Suc k)) ls' x2 = Inr y"
      "layer_dims (int n) nw skip xyz = Inr (din', dout')" "shape y = pre @ [nat din']"
      by blast
    with True x1 x2 ls Suc.prems(2) show ?thesis by (simp add: add.commute)
  next
    case False
    from False next_dims have nd: "layer_dims (int (Suc k)) nw skip xyz = Inr (nw, nw)"
      by auto
    from Suc.hyps(1)[OF d rest Suc.prems(2) Suc.prems(3) le Suc.prems(5) nd x1(2)]
    obtain y din' dout' where
      "run_layers skip inputs (int (Suc k)) ls' x1 = Inr y"
      "layer_dims (int n) nw skip xyz = Inr (din', dout')" "shape y = pre @ [nat din']"
      by blast
    with False x1 ls Suc.prems(2) show ?thesis by (auto simp add: add.commute)
  qed
qed

lemma init_layers_dims:
  assumes "init_layers \<theta> act nw skip xyz (map int [k..<n]) = Inr ls"
  shows "length ls = n - k \<and>
         (\<forall>j < n - k. \<exists>dout. layer_dims (int (k + j)) nw skip xyz
                                = Inr (int (in_features (ls ! j)), dout))"
  using assms
proof (induction "n - k" arbitrary: k ls)
  case 0
  then show ?case by auto
next
  case (Suc d)
  then have kn: "k < n" by linarith
  then have upt: "map int [k..<n] = int k # map int [Suc k..<n]"
    by (simp add: upt_conv_Cons)
  from Suc.prems(1)[unfolded upt]
  obtain din0 dout0 l ls' where
    d0: "layer_dims (int k) nw skip xyz = Inr (din0, dout0)"
    and lin: "Linear_xavier \<theta> (Layer (nat (int k))) din0 dout0 = Inr l"
    and rest: "init_layers \<theta> act nw skip xyz (map int [Suc k..<n]) = Inr ls'"
    and ls: "ls = l # ls'"
    by (rule init_layers_ConsD)
  have d: "d = n - Suc k" using Suc.hyps(2) by simp
  from Suc.hyps(1)[OF d rest] have
    len: "length ls' = n - Suc k" and
    ih: "\<forall>j < n - Suc k. \<exists>dout. layer_dims (int (Suc k + j)) nw skip xyz
                                   = Inr (int (in_features (ls' ! j)), dout)"
    by auto
  from Linear_InrD[OF lin] have f: "int (in_features l) = din0" by simp
  have "\<exists>dout. layer_dims (int (k + j)) nw skip xyz = Inr (int (in_features (ls ! j)), dout)"
    if "j < n - k" for j
  proof (cases j)
    case 0
    with d0 f ls show ?thesis by simp
  next
    case (Suc j')
    with that have "j' < n - Suc k" by simp
    with ih Suc ls show ?thesis by simp
  qed
  with len ls kn show ?case by auto
qed

lemma init_layers_prefix:
  "init_layers \<theta> act nw skip xyz (is1 @ is2) = Inr ls \<Longrightarrow>
     init_layers \<theta> act nw skip xyz is1 = Inr (take (length is1) ls)"
  by (induction is1 arbitrary: ls) (auto split: sum.splits prod.splits if_splits)

text \<open>
  Inside the first stack the widths agree: the tensor that the loop of \<open>MLP.forward\<close>
  has built when it reaches layer \<open>k\<close> has the width layer \<open>k\<close> was constructed for,
  and the tensor that leaves the stack is \<open>net_width + xyz_dim\<close> wide when the last
  layer is a skip layer.
\<close>

lemma first_stack_layer_inputs:
  assumes init: "MLP_init \<theta> nd nw ndc nwc skip nrgb nden act xyz vd = Inr m"
    and skip: "skip \<noteq> 0" and shp: "shape x = pre @ [E]" and E: "int E = xyz"
    and k: "k \<le> nat nd"
  shows "\<exists>y. run_layers (skip_index m) x 0 (take k (layers m)) x = Inr y
            \<and> shape y = pre @ [if k < nat nd then in_features (layers m ! k)
                                else if nd \<le> 0 then E
                                else if (nd - 1) mod skip = 0 \<and> 1 < nd then nat (nw + xyz)
                                else nat nw]"
proof -
  from init obtain ls where
    ls: "init_layers \<theta> act nw skip xyz (map int [0..<nat nd]) = Inr ls"
    and m: "layers m = ls" "skip_index m = skip"
    by (auto simp: MLP_init_def py_range_def split: sum.splits)
  from init_layers_dims[OF ls] have len: "length ls = nat nd"
    and dims: "\<forall>j < nat nd. \<exists>dout. layer_dims (int j) nw skip xyz
                                = Inr (int (in_features (ls ! j)), dout)"
    by auto
  have "[0..<nat nd] = [0..<k] @ [k..<nat nd]" using k by (metis le_add_diff_inverse upt_add_eq_append zero_le)
  then have "init_layers \<theta> act nw skip xyz (map int [0..<k] @ map int [k..<nat nd]) = Inr ls"
    using ls by simp
  from init_layers_prefix[OF this]
  have pk: "init_layers \<theta> act nw skip xyz (map int [0..<k]) = Inr (take k ls)" by simp
  have xyz: "0 \<le> xyz" using E by simp
  have sx: "shape x = pre @ [nat xyz]" using shp E by auto
  have d0: "layer_dims (int 0) nw skip xyz = Inr (xyz, nw)" by (simp add: layer_dims_def)
  from run_init_layers[OF pk skip xyz _ sx d0 sx]
  obtain y din' dout' where
    run: "run_layers skip x (int 0) (take k ls) x = Inr y"
    and dn: "layer_dims (int k) nw skip xyz = Inr (din', dout')"
    and sy: "shape y = pre @ [nat din']"
    by auto
  have "nat din' = (if k < nat nd then in_features (ls ! k)
                    else if nd \<le> 0 then E
                    else if (nd - 1) mod skip = 0 \<and> 1 < nd then nat (nw + xyz)
                    else nat nw)"
  proof (cases "k < nat nd")
    case True
    with dims obtain dout where
      "layer_dims (int k) nw skip xyz = Inr (int (in_features (ls ! k)), dout)" by auto
    with dn True show ?thesis by auto
  next
    case False
    with k have "k = nat nd" by simp
    with dn skip E False show ?thesis by (auto simp: layer_dims_def split: if_splits)
  qed
  with run sy m show ?thesis by simp
qed

lemma MLP_init_headsD:
  assumes "MLP_init \<theta> nd nw ndc nwc skip nrgb nden act xyz vd = Inr m"
  shows "0 \<le> nw" "in_features (density_layer m) = nat nw"
    "in_features (extra_layer m) = nat nw" "length (layers m) = nat nd" "skip_index m = skip"
proof -
  from assms obtain ls dl el where
    ls: "init_layers \<theta> act nw skip xyz (map int [0..<nat nd]) = Inr ls"
    and dl: "Linear_xavier \<theta> DensityLayer nw nden = Inr dl"
    and el: "Linear_xavier \<theta> ExtraLayer nw nw = Inr el"
    and m: "layers m = ls" "density_layer m = dl" "extra_layer m = el" "skip_index m = skip"
    by (auto simp: MLP_init_def py_range_def split: sum.splits)
  from Linear_InrD[OF dl] Linear_InrD[OF el] init_layers_dims[OF ls] m
  show "0 \<le> nw" "in_features (density_layer m) = nat nw"
    "in_features (extra_layer m) = nat nw" "length (layers m) = nat nd" "skip_index m = skip"
    by auto
qed

lemma MLP_init_first_layerD:
  assumes "MLP_init \<theta> nd nw ndc nwc skip nrgb nden act xyz vd = Inr m" and "0 < nd"
  shows "\<exists>l rest. layers m = l # rest \<and> int (in_features l) = xyz"
proof -
  from assms(1) obtain ls where
    ls: "init_layers \<theta> act nw skip xyz (map int [0..<nat nd]) = Inr ls"
    and m: "layers m = ls"
    by (auto simp: MLP_init_def py_range_def split: sum.splits)
  from init_layers_dims[OF ls] have len: "length ls = nat nd"
    and dims: "\<forall>j < nat nd. \<exists>dout. layer_dims (int (0 + j)) nw skip xyz
                                = Inr (int (in_features (ls ! j)), dout)"
    by auto
  from dims[rule_format, of 0] assms(2)
  have "int (in_features (ls ! 0)) = xyz" by (auto simp: layer_dims_def)
  moreover from len assms(2) obtain l rest where "ls = l # rest" by (cases ls) auto
  ultimately show ?thesis using m by auto
qed

text \<open>
  When the last layer of the first stack is a skip layer, no call of \<open>MLP.forward\<close>
  returns: the two heads were built for \<open>net_width\<close> and receive
  \<open>net_width + xyz_dim\<close>.
\<close>

lemma MLP_forward_raises_after_final_skip_layer:
  assumes init: "MLP_init \<theta> nd nw ndc nwc skip nrgb nden act xyz vd = Inr m"
    and nd: "1 < nd" and last_skip: "(nd - 1) mod skip = 0" and xyz: "0 < xyz"
  shows "isl (MLP_forward m x v)"
proof (cases "length (shape x) < 2")
  case True
  then show ?thesis by (simp add: MLP_forward_def)
next
  case False
  then have ne: "shape x \<noteq> []" by auto
  have skip: "skip \<noteq> 0" using nd last_skip by auto
  note h = MLP_init_headsD[OF init]
  have trunk: "isl (MLP_trunk m x)"
  proof (cases "int (last (shape x)) = xyz")
    case True
    have sx: "shape x = butlast (shape x) @ [last (shape x)]" using ne by simp
    from first_stack_layer_inputs[OF init skip sx True, of "nat nd"] nd last_skip h(4)
    obtain y where run: "run_layers (skip_index m) x 0 (layers m) x = Inr y"
      and sy: "shape y = butlast (shape x) @ [nat (nw + xyz)]"
      by auto
    have "nat (nw + xyz) \<noteq> nat nw" using xyz h(1) by simp
    with sy h(2) have "Linear_forward (density_layer m) y = Inl RuntimeError"
      by (simp add: Linear_forward_def)
    with run show ?thesis by (simp add: MLP_trunk_def)
  next
    case wrong: False
    from MLP_init_first_layerD[OF init] nd obtain l rest where
      l: "layers m = l # rest" "int (in_features l) = xyz" by auto
    with wrong have "layer_forward l x = Inl RuntimeError"
      by (auto simp: layer_forward_def Linear_forward_def)
    with l show ?thesis by (simp add: MLP_trunk_def)
  qed
  then show ?thesis using False by (auto simp: MLP_forward_def isl_def)
qed

text \<open>
  Claim C8. The claim is that the layer following every skip layer is built for
  \<open>net_width + xyz_dim\<close>, so that the widths of the forward pass match the
  constructed layers. Inside the first stack they do. But when the last layer of the
  stack is itself a skip layer, the layers that follow it are the density head and the
  bottleneck, both built for \<open>net_width\<close>: with a depth of 5, a skip every 4 layers
  and every other size at its default, construction succeeds, the stack returns a tensor
  of width 256 + 96, and \<open>MLP.forward\<close> raises, with and without a view direction,
  where the network of depth 8 returns.
\<close>

theorem heads_mismatch_after_final_skip_layer:
  "\<not> isl (MLP_init zero_params 5 256 1 128 4 3 1 ''relu'' 96 27)
   \<and> length (layers depth5_mlp) = 5
   \<and> shape (projr (run_layers (skip_index depth5_mlp) \<lparr>shape = [1, 128, 96], elt = (\<lambda>idx. 0)\<rparr> 0
                      (layers depth5_mlp) \<lparr>shape = [1, 128, 96], elt = (\<lambda>idx. 0)\<rparr>))
       = [1, 128, 256 + 96]
   \<and> in_features (density_layer depth5_mlp) = 256
   \<and> in_features (extra_layer depth5_mlp) = 256
   \<and> MLP_forward depth5_mlp \<lparr>shape = [1, 128, 96], elt = (\<lambda>idx. 0)\<rparr> None = Inl RuntimeError
   \<and> MLP_forward depth5_mlp \<lparr>shape = [1, 128, 96], elt = (\<lambda>idx. 0)\<rparr>
        (Some \<lparr>shape = [1, 27], elt = (\<lambda>idx. 0)\<rparr>) = Inl RuntimeError
   \<and> \<not> isl (MLP_forward (mlp (example_model default_args))
               \<lparr>shape = [1, 128, 96], elt = (\<lambda>idx. 0)\<rparr>
               (Some \<lparr>shape = [1, 27], elt = (\<lambda>idx. 0)\<rparr>))"
proof (intro conjI)
  show "\<not> isl (MLP_init zero_params 5 256 1 128 4 3 1 ''relu'' 96 27)"
    by (simp add: init_defs)
  show "length (layers depth5_mlp) = 5" by (simp add: init_defs)
  show "shape (projr (run_layers (skip_index depth5_mlp) \<lparr>shape = [1, 128, 96], elt = (\<lambda>idx. 0)\<rparr> 0
                      (layers depth5_mlp) \<lparr>shape = [1, 128, 96], elt = (\<lambda>idx. 0)\<rparr>))
       = [1, 128, 256 + 96]"
    by (simp add: init_defs mlp_defs)
  show "in_features (density_layer depth5_mlp) = 256" by (simp add: init_defs)
  show "in_features (extra_layer depth5_mlp) = 256" by (simp add: init_defs)
  show "MLP_forward depth5_mlp \<lparr>shape = [1, 128, 96], elt = (\<lambda>idx. 0)\<rparr> None = Inl RuntimeError"
    by (simp add: init_defs mlp_defs)
  show "MLP_forward depth5_mlp \<lparr>shape = [1, 128, 96], elt = (\<lambda>idx. 0)\<rparr>
        (Some \<lparr>shape = [1, 27], elt = (\<lambda>idx. 0)\<rparr>) = Inl RuntimeError"
    by (simp add: init_defs mlp_defs)
  show "\<not> isl (MLP_forward (mlp (example_model default_args))
               \<lparr>shape = [1, 128, 96], elt = (\<lambda>idx. 0)\<rparr>
               (Some \<lparr>shape = [1, 27], elt = (\<lambda>idx. 0)\<rparr>))"
    by (simp add: init_defs mlp_defs)
qed

text \<open>
  Claim C10. For every position input and every two view-direction arguments (none at
  all, or any tensor), \<open>MLP.forward\<close> returns the same raw density: the density head
  reads the final hidden state of the first stack before the view direction is used.
  A failure in that first part does not depend on the view direction either.
\<close>

theorem raw_density_independent_of_view:
  "(MLP_forward m x v1 = Inr (rgb1, d1) \<and> MLP_forward m x v2 = Inr (rgb2, d2) \<longrightarrow> d1 = d2)
   \<and> (MLP_forward m x v1 = Inr (rgb1, d1) \<longrightarrow> (\<exists>h. MLP_trunk m x = Inr (h, d1)))
   \<and> (MLP_trunk m x = Inl e \<and> 2 \<le> length (shape x) \<longrightarrow> MLP_forward m x v1 = Inl e)"
  by (auto simp: MLP_forward_def split: if_splits sum.splits)

theorem raw_density_independent_of_view_witness:
  "\<not> isl (MLP_forward example_mlp \<lparr>shape = [1, 1, 2], elt = (\<lambda>idx. 1)\<rparr> None)
   \<and> \<not> isl (MLP_forward example_mlp \<lparr>shape = [1, 1, 2], elt = (\<lambda>idx. 1)\<rparr>
               (Some \<lparr>shape = [1, 1], elt = (\<lambda>idx. 1)\<rparr>))
   \<and> snd (projr (MLP_forward example_mlp \<lparr>shape = [1, 1, 2], elt = (\<lambda>idx. 1)\<rparr> None))
     = snd (projr (MLP_forward example_mlp \<lparr>shape = [1, 1, 2], elt = (\<lambda>idx. 1)\<rparr>
               (Some \<lparr>shape = [1, 1], elt = (\<lambda>idx. 1)\<rparr>)))"
proof -
  let ?x = "\<lparr>shape = [1, 1, 2], elt = (\<lambda>idx. 1)\<rparr>"
  let ?v = "Some \<lparr>shape = [1, 1], elt = (\<lambda>idx. 1)\<rparr>"
  have a: "\<not> isl (MLP_forward example_mlp ?x None)"
    by (simp add: init_defs mlp_defs)
  have b: "\<not> isl (MLP_forward example_mlp ?x ?v)"
    by (simp add: init_defs mlp_defs)
  from raw_density_independent_of_view[of example_mlp ?x None
      "fst (projr (MLP_forward example_mlp ?x None))"
      "snd (projr (MLP_forward example_mlp ?x None))" ?v
      "fst (projr (MLP_forward example_mlp ?x ?v))"
      "snd (projr (MLP_forward example_mlp ?x ?v))"]
    Inr_projr[OF a] Inr_projr[OF b]
  have "snd (projr (MLP_forward example_mlp ?x None))
      = snd (projr (MLP_forward example_mlp ?x ?v))" by simp
  with a b show ?thesis by simp
qed


section \<open>Construction\<close>

lemma init_layers_not_relu:
  "act \<noteq> ''relu'' \<Longrightarrow> isl (init_layers \<theta> act nw skip xyz (i # rest))"
  by (simp split: sum.splits prod.splits)

lemma init_view_layers_not_relu:
  "act \<noteq> ''relu'' \<Longrightarrow> isl (init_view_layers \<theta> act nw nwc vd (i # rest))"
  by (simp split: sum.splits prod.splits)

lemma MLP_init_not_relu:
  assumes "act \<noteq> ''relu''" and "0 < nd \<or> 0 < ndc"
  shows "isl (MLP_init \<theta> nd nw ndc nwc skip nrgb nden act xyz vd)"
proof (cases "0 < nd")
  case True
  with assms(1) show ?thesis
    using init_layers_not_relu[of act \<theta> nw skip xyz 0 "map int [1..<nat nd]"]
    by (auto simp: MLP_init_def py_range_pos split: sum.splits)
next
  case False
  with assms have "0 < ndc" by simp
  with assms(1) show ?thesis
    using init_view_layers_not_relu[of act \<theta> nw nwc vd 0 "map int [1..<nat ndc]"]
    by (auto simp: MLP_init_def py_range_pos split: sum.splits)
qed

lemma MipNerf_init_InrD:
  assumes "MipNerf_init \<theta> a = Inr self"
  shows "rgb_activation_module self = Sigmoid" "density_activation_module self = Softplus"
    "rgb_padding self = rgb_padding a" "density_bias self = density_bias a"
    "density_noise self = density_noise a" "num_levels self = num_levels a"
  using assms by (auto simp: MipNerf_init_def split: sum.splits if_splits)

text \<open>
  Claim C2, as stated: every configuration with an unsupported activation or an
  unsupported ray shape (neither \<open>cone\<close> nor \<open>cylinder\<close>) makes the constructor raise.
  The constructor stores the ray shape without looking at it: with the ray shape
  \<open>sphere\<close> and every other argument at its default, construction succeeds.
\<close>

theorem init_accepts_unknown_ray_shape:
  "''sphere'' \<noteq> ''cone'' \<and> ''sphere'' \<noteq> ''cylinder''
   \<and> \<not> isl (MipNerf_init zero_params (default_args\<lparr>ray_shape := ''sphere''\<rparr>))
   \<and> ray_shape (projr (MipNerf_init zero_params (default_args\<lparr>ray_shape := ''sphere''\<rparr>)))
       = ''sphere''"
  by (simp add: init_defs)

text \<open>
  Claim C2, amended. The constructor raises whenever the colour activation is not
  \<open>sigmoid\<close> or the density activation is not \<open>softplus\<close>, and whenever the hidden
  activation is not \<open>relu\<close> and the network has a hidden layer to build (a positive
  depth of either stack). The ray shape has no part in it: changing the ray shape
  changes neither whether the constructor raises nor the error, only the stored
  attribute.
\<close>

theorem init_rejects_unsupported_activation:
  "(rgb_activation a \<noteq> ''sigmoid'' \<or> density_activation a \<noteq> ''softplus'' \<or>
    (mlp_net_activation a \<noteq> ''relu'' \<and> (0 < mlp_net_depth a \<or> 0 < mlp_net_depth_condition a))
      \<longrightarrow> isl (MipNerf_init \<theta> a))
   \<and> MipNerf_init \<theta> (a\<lparr>ray_shape := s\<rparr>) =
       (case MipNerf_init \<theta> a of Inl e \<Rightarrow> Inl e | Inr self \<Rightarrow> Inr (self\<lparr>ray_shape := s\<rparr>))"
proof (intro conjI impI)
  assume h: "rgb_activation a \<noteq> ''sigmoid'' \<or> density_activation a \<noteq> ''softplus'' \<or>
    (mlp_net_activation a \<noteq> ''relu'' \<and> (0 < mlp_net_depth a \<or> 0 < mlp_net_depth_condition a))"
  show "isl (MipNerf_init \<theta> a)"
  proof (cases "mlp_net_activation a \<noteq> ''relu''
                \<and> (0 < mlp_net_depth a \<or> 0 < mlp_net_depth_condition a)")
    case True
    then have "isl (MLP_init \<theta> (mlp_net_depth a) (mlp_net_width a) (mlp_net_depth_condition a)
             (mlp_net_width_condition a) (mlp_skip_index a) (mlp_num_rgb_channels a)
             (mlp_num_density_channels a) (mlp_net_activation a)
             (mlp_xyz_dim a) (mlp_view_dim a))"
      by (intro MLP_init_not_relu) auto
    then show ?thesis by (auto simp: MipNerf_init_def split: sum.splits)
  next
    case False
    with h have "rgb_activation a \<noteq> ''sigmoid'' \<or> density_activation a \<noteq> ''softplus''"
      by blast
    then show ?thesis by (auto simp: MipNerf_init_def split: sum.splits)
  qed
next
  show "MipNerf_init \<theta> (a\<lparr>ray_shape := s\<rparr>) =
       (case MipNerf_init \<theta> a of Inl e \<Rightarrow> Inl e | Inr self \<Rightarrow> Inr (self\<lparr>ray_shape := s\<rparr>))"
    by (simp add: MipNerf_init_def mlp_xyz_dim_def mlp_view_dim_def split: sum.splits)
qed

theorem init_rejects_unsupported_activation_witness:
  "isl (MipNerf_init zero_params (default_args\<lparr>rgb_activation := ''tanh''\<rparr>))
   \<and> isl (MipNerf_init zero_params (default_args\<lparr>mlp_net_activation := ''gelu''\<rparr>))"
proof -
  have "isl (MipNerf_init zero_params (default_args\<lparr>rgb_activation := ''tanh''\<rparr>))"
    using conjunct1[OF init_rejects_unsupported_activation
          [where a = "default_args\<lparr>rgb_activation := ''tanh''\<rparr>" and \<theta> = zero_params
             and s = "''cone''"]]
    by (simp add: default_args_def)
  moreover
  have "isl (MipNerf_init zero_params (default_args\<lparr>mlp_net_activation := ''gelu''\<rparr>))"
    using conjunct1[OF init_rejects_unsupported_activation
          [where a = "default_args\<lparr>mlp_net_activation := ''gelu''\<rparr>" and \<theta> = zero_params
             and s = "''cone''"]]
    by (simp add: default_args_def)
  ultimately show ?thesis by simp
qed

lemma init_view_layers_ConsD:
  assumes "init_view_layers \<theta> act nw nwc vd (i # rest) = Inr ls"
  obtains l ls' where
    "Linear_xavier \<theta> (ViewLayer (nat i)) (fst (view_layer_dims i nw nwc vd))
        (snd (view_layer_dims i nw nwc vd)) = Inr l"
    "ls = l # ls'"
  using assms by (auto split: sum.splits if_splits prod.splits)

lemma MLP_head_view_width:
  assumes ex: "out_features (extra_layer m) = w"
    and vl: "view_layers m = l # ls"
    and v: "shape v = [B, F]"
    and ne: "in_features l \<noteq> w + F"
  shows "isl (MLP_head m n x1 (Some v))"
proof (cases "Linear_forward (extra_layer m) x1")
  case (Inl e)
  then show ?thesis by (simp add: MLP_head_def)
next
  case (Inr bottleneck)
  then have sb: "shape bottleneck = butlast (shape x1) @ [w]"
    using ex by (auto simp: Linear_forward_def split: if_splits)
  have rp: "repeat v n = Inr \<lparr>shape = [B, n, F],
               elt = (\<lambda>idx. case idx of [b, s, f] \<Rightarrow> elt v [b, f] | _ \<Rightarrow> 0)\<rparr>"
    using v by (simp add: repeat_def)
  show ?thesis
  proof (cases "cat bottleneck \<lparr>shape = [B, n, F],
               elt = (\<lambda>idx. case idx of [b, s, f] \<Rightarrow> elt v [b, f] | _ \<Rightarrow> 0)\<rparr>")
    case (Inl e)
    with Inr rp show ?thesis by (simp add: MLP_head_def)
  next
    case c: (Inr x2)
    then have "shape x2 \<noteq> [] \<and> last (shape x2) = w + F"
      using sb by (auto simp: cat_def split: if_splits)
    with ne have "layer_forward l x2 = Inl RuntimeError"
      by (auto simp: layer_forward_def Linear_forward_def)
    with Inr rp c vl show ?thesis by (simp add: MLP_head_def)
  qed
qed

lemma MipNerf_init_mlpD:
  assumes "MipNerf_init \<theta> a = Inr self"
  shows "MLP_init \<theta> (mlp_net_depth a) (mlp_net_width a) (mlp_net_depth_condition a)
             (mlp_net_width_condition a) (mlp_skip_index a) (mlp_num_rgb_channels a)
             (mlp_num_density_channels a) (mlp_net_activation a)
             (mlp_xyz_dim a) (mlp_view_dim a) = Inr (mlp self)"
    and "use_viewdirs self = use_viewdirs a" and "deg_view self = deg_view a"
  using assms by (auto simp: MipNerf_init_def split: sum.splits if_splits)

lemma MLP_init_view_stackD:
  assumes "MLP_init \<theta> nd nw ndc nwc skip nrgb nden act xyz vd = Inr m" and "0 < ndc"
  shows "0 \<le> nw \<and> out_features (extra_layer m) = nat nw
         \<and> (\<exists>l ls. view_layers m = l # ls \<and> in_features l = nat (nw + vd))"
proof -
  from assms(1) obtain el vls where
    el: "Linear_xavier \<theta> ExtraLayer nw nw = Inr el"
    and vls: "init_view_layers \<theta> act nw nwc vd (py_range ndc) = Inr vls"
    and m: "extra_layer m = el" "view_layers m = vls"
    by (auto simp: MLP_init_def split: sum.splits)
  from vls assms(2) have "init_view_layers \<theta> act nw nwc vd (0 # map int [1..<nat ndc]) = Inr vls"
    by (simp add: py_range_pos)
  then obtain l ls' where
    l: "Linear_xavier \<theta> (ViewLayer (nat 0)) (fst (view_layer_dims 0 nw nwc vd))
          (snd (view_layer_dims 0 nw nwc vd)) = Inr l" and "vls = l # ls'"
    by (rule init_view_layers_ConsD)
  with Linear_InrD[OF el] Linear_InrD[OF l] m show ?thesis
    by (simp add: view_layer_dims_def)
qed

text \<open>
  With \<open>append_identity = False\<close> and view directions in use, no call of \<open>forward\<close>
  returns, whatever the rays, the parameters and the other helpers are: the view
  encoding is three entries wider than the first layer of the second stack accepts.
\<close>

lemma forward_raises_without_append_identity:
  assumes init: "MipNerf_init \<theta> a = Inr self"
    and na: "\<not> append_identity a" and uv: "use_viewdirs a"
    and ndc: "0 < mlp_net_depth_condition a" and nl: "0 < num_levels a"
    and pe: "pos_enc M = (\<lambda>x lo hi ai. Inr (pos_enc_spec x lo hi ai))"
    and vd: "shape (viewdirs rs) = [B, 3]"
  shows "isl (forward M self rs randomized white_bkgd g)"
proof -
  note d = MipNerf_init_mlpD[OF init]
  from MLP_init_view_stackD[OF d(1) ndc] obtain l ls where
    nw: "0 \<le> mlp_net_width a"
    and ex: "out_features (extra_layer (mlp self)) = nat (mlp_net_width a)"
    and vl: "view_layers (mlp self) = l # ls"
    and inf: "in_features l = nat (mlp_net_width a + mlp_view_dim a)"
    by blast
  let ?v = "pos_enc_spec (viewdirs rs) 0 (deg_view a) True"
  have sv: "shape ?v = [B, 2 * 3 * nat (deg_view a) + 3]"
    using vd by (simp add: pos_enc_spec_def)
  have ne: "in_features l \<noteq> nat (mlp_net_width a) + (2 * 3 * nat (deg_view a) + 3)"
    using inf nw na by (simp add: mlp_view_dim_def Let_def)
  have head: "isl (MLP_head (mlp self) n x1 (Some ?v))" for n x1
    by (rule MLP_head_view_width[OF ex vl sv ne])
  have head': "MLP_head (mlp self) n x1 (Some ?v) \<noteq> Inr y" for n x1 y
    using head[of n x1] by (auto simp: isl_def)
  have pred: "isl (predict M self rs enc)" for enc
    using head' d(2,3) uv pe
    by (auto simp: predict_def MLP_forward_def split: sum.splits)
  have pred': "predict M self rs enc \<noteq> Inr y" for enc y
    using pred[of enc] by (auto simp: isl_def)
  have lev: "isl (level M self rs randomized white_bkgd i prev h)" for i prev h
    using pred' by (auto simp: level_def split: sum.splits prod.splits)
  from nl MipNerf_init_InrD(6)[OF init] have "0 < num_levels self" by simp
  then show ?thesis
    using lev[of 0 None g] by (auto simp: forward_def py_range_pos isl_def split: sum.splits)
qed

text \<open>
  Claim C4. The claim is that \<open>append_identity = False\<close> is respected by the forward
  pass. The constructor sizes the view input of the network from the option (24 for the
  default degree 4), but \<open>forward\<close> always asks \<open>pos_enc\<close> to append the raw direction,
  so the encoding has 27 entries: with the option off and every other argument at its
  default, the first layer of the second stack refuses its input and \<open>forward\<close> raises,
  where the same call with the option on returns.
\<close>

theorem forward_fails_without_append_identity:
  "\<not> isl (MipNerf_init zero_params (default_args\<lparr>append_identity := False\<rparr>))
   \<and> mlp_view_dim (default_args\<lparr>append_identity := False\<rparr>) = 24
   \<and> in_features (hd (view_layers (mlp (example_model (default_args\<lparr>append_identity := False\<rparr>)))))
       = 256 + 24
   \<and> shape (pos_enc_spec (viewdirs example_rays) 0
              (deg_view (example_model (default_args\<lparr>append_identity := False\<rparr>))) True) = [1, 27]
   \<and> forward example_mip (example_model (default_args\<lparr>append_identity := False\<rparr>))
        example_rays False False 0 = Inl RuntimeError
   \<and> \<not> isl (forward example_mip (example_model default_args) example_rays False False 0)"
proof (intro conjI)
  show "\<not> isl (MipNerf_init zero_params (default_args\<lparr>append_identity := False\<rparr>))"
    by (simp add: init_defs)
  show "mlp_view_dim (default_args\<lparr>append_identity := False\<rparr>) = 24"
    by (simp add: init_defs)
  show "in_features (hd (view_layers (mlp (example_model (default_args\<lparr>append_identity := False\<rparr>)))))
          = 256 + 24"
    by (simp add: init_defs)
  show "shape (pos_enc_spec (viewdirs example_rays) 0
              (deg_view (example_model (default_args\<lparr>append_identity := False\<rparr>))) True) = [1, 27]"
    by (simp add: init_defs pos_enc_spec_def example_rays_def)
  show "forward example_mip (example_model (default_args\<lparr>append_identity := False\<rparr>))
          example_rays False False 0 = Inl RuntimeError"
    by (simp add: init_defs mlp_defs forward_defs Let_def)
  show "\<not> isl (forward example_mip (example_model default_args) example_rays False False 0)"
    by (simp add: init_defs mlp_defs forward_defs Let_def)
qed

section \<open>The steps of one level\<close>

lemma sigmoid_range: "0 < sigmoid v" "sigmoid v < 1"
proof -
  have "0 < exp (- v)" by simp
  then show "0 < sigmoid v" "sigmoid v < 1"
    by (simp_all add: sigmoid_def add_pos_pos)
qed

lemma padded_range:
  assumes "0 \<le> (p::real)"
  shows "- p \<le> sigmoid v * (1 + 2 * p) - p" "sigmoid v * (1 + 2 * p) - p \<le> 1 + p"
proof -
  have a: "0 \<le> sigmoid v * (1 + 2 * p)" using sigmoid_range(1)[of v] assms by simp
  then show "- p \<le> sigmoid v * (1 + 2 * p) - p" by simp
  have "sigmoid v * (1 + 2 * p) \<le> 1 * (1 + 2 * p)"
    using sigmoid_range(2)[of v] assms by (intro mult_right_mono) auto
  then show "sigmoid v * (1 + 2 * p) - p \<le> 1 + p" by simp
qed


lemma level_InrE:
  assumes "level M self rs randomized wb i prev g = Inr (out, g')"
  obtains t_samples mc g1 enc raw_rgb raw_density comp_rgb distance acc weights where
    "draw_samples M self rs randomized i prev g = Inr ((t_samples, mc), g1)"
    "encode_samples M self mc = Inr enc"
    "predict M self rs enc = Inr (raw_rgb, raw_density)"
    "volumetric_rendering M (rgb_of M self raw_rgb)
        (density_of M self (fst (add_noise M self randomized raw_density g1)))
        t_samples (directions rs) wb = Inr (comp_rgb, distance, acc, weights)"
    "out = (comp_rgb, distance, acc, weights, t_samples)"
    "g' = snd (add_noise M self randomized raw_density g1)"
  using assms
  by (auto simp: level_def split: sum.splits prod.splits)

subsection \<open>The colours\<close>


















subsection \<open>The densities\<close>

text \<open>
  Claim C6. In every level that \<open>forward\<close> completes, the density handed to
  \<open>volumetric_rendering\<close> is the softplus of the raw density of the network plus the
  bias, where noise is added to the raw density first exactly when the call is
  randomized and the configured scale is positive: the noise is the scale times a draw
  of \<open>torch.randn\<close> of the shape of the raw density. Otherwise nothing is drawn and
  the generator is left as the sampler left it. Every operation rounds to float32.
\<close>

theorem density_noise_only_when_randomized:
  assumes init: "MipNerf_init \<theta> a = Inr self"
    and lv: "level M self rs randomized white_bkgd i prev g = Inr (out, g')"
  shows "\<exists>t_samples mc g1 enc raw_rgb raw_density rgb density comp_rgb distance acc weights.
      draw_samples M self rs randomized i prev g = Inr ((t_samples, mc), g1)
    \<and> encode_samples M self mc = Inr enc
    \<and> predict M self rs enc = Inr (raw_rgb, raw_density)
    \<and> volumetric_rendering M rgb density t_samples (directions rs) white_bkgd
        = Inr (comp_rgb, distance, acc, weights)
    \<and> out = (comp_rgb, distance, acc, weights, t_samples)
    \<and> shape density = shape raw_density
    \<and> (if randomized \<and> 0 < density_noise a
        then (\<forall>idx. elt density idx
                = float32 M (softplus (float32 M
                    (float32 M (elt raw_density idx
                        + float32 M (float32 M (density_noise a)
                                     * fst (randn M (shape raw_density) g1) idx))
                     + float32 M (density_bias a)))))
             \<and> g' = snd (randn M (shape raw_density) g1)
        else (\<forall>idx. elt density idx
                = float32 M (softplus (float32 M (elt raw_density idx
                                                  + float32 M (density_bias a)))))
             \<and> g' = g1)"
proof -
  from lv obtain t_samples mc g1 enc raw_rgb raw_density comp_rgb distance acc weights where
    d: "draw_samples M self rs randomized i prev g = Inr ((t_samples, mc), g1)"
    and e: "encode_samples M self mc = Inr enc"
    and p: "predict M self rs enc = Inr (raw_rgb, raw_density)"
    and v: "volumetric_rendering M (rgb_of M self raw_rgb)
        (density_of M self (fst (add_noise M self randomized raw_density g1)))
        t_samples (directions rs) white_bkgd = Inr (comp_rgb, distance, acc, weights)"
    and out: "out = (comp_rgb, distance, acc, weights, t_samples)"
    and g': "g' = snd (add_noise M self randomized raw_density g1)"
    by (rule level_InrE)
  let ?density = "density_of M self (fst (add_noise M self randomized raw_density g1))"
  note i = MipNerf_init_InrD[OF init]
  have s: "shape ?density = shape raw_density"
    using i by (simp add: density_of_def add_noise_def tmap_def split: prod.splits)
  have c: "(if randomized \<and> 0 < density_noise a
        then (\<forall>idx. elt ?density idx
                = float32 M (softplus (float32 M
                    (float32 M (elt raw_density idx
                        + float32 M (float32 M (density_noise a)
                                     * fst (randn M (shape raw_density) g1) idx))
                     + float32 M (density_bias a)))))
             \<and> g' = snd (randn M (shape raw_density) g1)
        else (\<forall>idx. elt ?density idx
                = float32 M (softplus (float32 M (elt raw_density idx
                                                  + float32 M (density_bias a)))))
             \<and> g' = g1)"
    using i g' by (simp add: density_of_def add_noise_def tmap_def split: prod.splits)
  from d e p v out s c show ?thesis by blast
qed

theorem density_noise_only_when_randomized_witness:
  "snd (projr (level example_mip (example_model (small_args\<lparr>density_noise := 1\<rparr>))
                 example_rays True False 0 None 0)) = 2
   \<and> snd (projr (level example_mip (example_model (small_args\<lparr>density_noise := 1\<rparr>))
                 example_rays False False 0 None 0)) = 0"
proof -
  let ?a = "small_args\<lparr>density_noise := 1\<rparr>"
  let ?m = "example_model ?a"
  have init: "MipNerf_init zero_params ?a = Inr ?m" by (simp add: init_defs)
  have a: "density_noise ?a = 1" by (simp add: small_args_def default_args_def)
  have ok: "\<not> isl (level example_mip ?m example_rays rnd False 0 None 0)" for rnd
    by (simp add: init_defs mlp_defs forward_defs Let_def)
  have d: "snd (projr (draw_samples example_mip ?m example_rays rnd 0 None 0))
             = (if rnd then 1 else 0)" for rnd
    by (simp add: init_defs forward_defs Let_def)
  have r: "snd (randn example_mip shp h) = Suc h" for shp h
    by (simp add: example_mip_def)
  have "snd (projr (level example_mip ?m example_rays True False 0 None 0)) = 2"
    using density_noise_only_when_randomized[OF init Inr_projr[OF ok[of True]]] d[of True] a
    by (auto simp: r)
  moreover
  have "snd (projr (level example_mip ?m example_rays False False 0 None 0)) = 0"
    using density_noise_only_when_randomized[OF init Inr_projr[OF ok[of False]]] d[of False] a
    by auto
  ultimately show ?thesis by simp
qed

text \<open>
  Claim C7. With \<open>disable_integration\<close> set, the covariances handed to
  \<open>integrated_pos_enc\<close> are all zero, and the integrated encoding of the means is
  then equal, entry by entry, to their plain positional encoding over the same degrees
  (without the raw components).
\<close>

theorem disabled_integration_is_plain_encoding:
  assumes "disable_integration self"
    and "integrated_pos_enc M = (\<lambda>mc lo hi. Inr (integrated_pos_enc_spec mc lo hi))"
  shows "encode_samples M self (means, covs)
           = integrated_pos_enc M (means, zeros_like covs) (min_deg_point self) (max_deg_point self)
       \<and> (\<forall>idx. elt (zeros_like covs) idx = 0)
       \<and> encode_samples M self (means, covs)
           = Inr (pos_enc_spec means (min_deg_point self) (max_deg_point self) False)"
  using assms
  by (simp add: encode_samples_def integrated_pos_enc_spec_def pos_enc_spec_def zeros_like_def)

theorem disabled_integration_is_plain_encoding_witness:
  "encode_samples example_mip (example_model (small_args\<lparr>disable_integration := True\<rparr>))
      (\<lparr>shape = [1, 1, 3], elt = (\<lambda>idx. 1 / 2)\<rparr>, \<lparr>shape = [1, 1, 3], elt = (\<lambda>idx. 1 / 4)\<rparr>)
     = Inr (pos_enc_spec \<lparr>shape = [1, 1, 3], elt = (\<lambda>idx. 1 / 2)\<rparr> 0 1 False)"
proof -
  let ?m = "example_model (small_args\<lparr>disable_integration := True\<rparr>)"
  have d: "disable_integration ?m" "min_deg_point ?m = 0" "max_deg_point ?m = 1"
    by (simp_all add: init_defs)
  have e: "integrated_pos_enc example_mip = (\<lambda>mc lo hi. Inr (integrated_pos_enc_spec mc lo hi))"
    by (simp add: example_mip_def)
  from disabled_integration_is_plain_encoding[OF d(1) e,
      where means = "\<lparr>shape = [1, 1, 3], elt = (\<lambda>idx. 1 / 2)\<rparr>"
        and covs = "\<lparr>shape = [1, 1, 3], elt = (\<lambda>idx. 1 / 4)\<rparr>"]
  have "encode_samples example_mip ?m
          (\<lparr>shape = [1, 1, 3], elt = (\<lambda>idx. 1 / 2)\<rparr>, \<lparr>shape = [1, 1, 3], elt = (\<lambda>idx. 1 / 4)\<rparr>)
        = Inr (pos_enc_spec \<lparr>shape = [1, 1, 3], elt = (\<lambda>idx. 1 / 2)\<rparr>
                 (min_deg_point ?m) (max_deg_point ?m) False)"
    by blast
  then show ?thesis by (simp only: d)
qed

section \<open>The loop over the levels\<close>

lemma steps_without_resampler:
  "draw_samples (M\<lparr>resample_along_rays := r\<rparr>) self rs rnd 0 prev g
     = draw_samples M self rs rnd 0 prev g"
  "encode_samples (M\<lparr>resample_along_rays := r\<rparr>) self mc = encode_samples M self mc"
  "predict (M\<lparr>resample_along_rays := r\<rparr>) slf rs enc = predict M slf rs enc"
  "add_noise (M\<lparr>resample_along_rays := r\<rparr>) self rnd raw g = add_noise M self rnd raw g"
  "rgb_of (M\<lparr>resample_along_rays := r\<rparr>) slf raw = rgb_of M slf raw"
  "density_of (M\<lparr>resample_along_rays := r\<rparr>) slf raw = density_of M slf raw"
  by (simp_all add: draw_samples_def encode_samples_def predict_def add_noise_def
        rgb_of_def density_of_def)

lemma level0_without_resampler:
  "level (M\<lparr>resample_along_rays := r\<rparr>) self rs rnd wb 0 prev g
     = level M self rs rnd wb 0 prev g"
  by (simp add: level_def steps_without_resampler cong: sum.case_cong prod.case_cong)

text \<open>
  Claim C9. A model with \<open>num_levels = 1\<close> never calls the resampler: \<open>forward\<close> is
  the single level 0, which draws its samples with the stratified sampler, so its
  outcome is the same whatever the resampler is; and the list it returns has length 1.
\<close>

theorem single_level_never_resamples:
  assumes "num_levels self = 1"
  shows "forward (M\<lparr>resample_along_rays := r\<rparr>) self rs randomized white_bkgd g
           = forward M self rs randomized white_bkgd g
       \<and> forward M self rs randomized white_bkgd g
           = (case level M self rs randomized white_bkgd 0 None g of
                Inl e \<Rightarrow> Inl e | Inr (out, g') \<Rightarrow> Inr ([out], g'))
       \<and> (\<forall>ret g'. forward M self rs randomized white_bkgd g = Inr (ret, g')
                    \<longrightarrow> length ret = 1)"
  using assms
  by (auto simp add: forward_def py_range_simps level0_without_resampler split: sum.splits)

theorem single_level_never_resamples_witness:
  "forward (example_mip\<lparr>resample_along_rays :=
              (\<lambda>os ds rad t w rnd shp sg pad g. Inl AssertionError)\<rparr>)
      (example_model (small_args\<lparr>num_levels := 1\<rparr>)) example_rays True False 0
     = forward example_mip (example_model (small_args\<lparr>num_levels := 1\<rparr>)) example_rays True False 0
   \<and> \<not> isl (forward example_mip (example_model (small_args\<lparr>num_levels := 1\<rparr>))
               example_rays True False 0)
   \<and> length (fst (projr (forward example_mip (example_model (small_args\<lparr>num_levels := 1\<rparr>))
                            example_rays True False 0))) = 1"
proof -
  let ?m = "example_model (small_args\<lparr>num_levels := 1\<rparr>)"
  let ?X = "forward example_mip ?m example_rays True False 0"
  have n: "num_levels ?m = 1" by (simp add: init_defs)
  have ok: "\<not> isl ?X" by (simp add: init_defs mlp_defs forward_defs Let_def)
  note t = single_level_never_resamples[OF n, where M = example_mip
      and r = "\<lambda>os ds rad t w rnd shp sg pad g. Inl AssertionError"
      and rs = example_rays and randomized = True and white_bkgd = False and g = 0]
  from conjunct2[OF conjunct2[OF t], rule_format, OF Inr_projr[OF ok]]
  have "length (fst (projr ?X)) = 1" .
  with conjunct1[OF t] ok show ?thesis by simp
qed

lemma level_InrD:
  assumes "level M self rs rnd wb i prev g = Inr (out, g')"
  shows "\<exists>mc g1. draw_samples M self rs rnd i prev g = Inr ((out_t_samples out, mc), g1)"
    and "\<exists>rgb den c d a. out = (c, d, a, out_weights out, out_t_samples out) \<and>
           volumetric_rendering M rgb den (out_t_samples out) (directions rs) wb
             = Inr (c, d, a, out_weights out)"
  using assms
  by (auto simp: level_def out_t_samples_def out_weights_def split: sum.splits prod.splits)

lemma forward_levels_chain:
  assumes "forward_levels M self rs rnd wb is prev ret g = Inr (ret', g')"
    and "\<And>i p g out g1. i \<in> set is \<Longrightarrow> level M self rs rnd wb i (Some p) g = Inr (out, g1)
           \<Longrightarrow> Q out \<and> R p out"
    and "ret \<noteq> []" and "prev = Some (out_t_samples (last ret), out_weights (last ret))"
  shows "\<exists>outs. ret' = ret @ outs \<and> length outs = length is \<and> (\<forall>out\<in>set outs. Q out) \<and>
           (\<forall>k. length ret \<le> Suc k \<and> Suc k < length ret' \<longrightarrow>
                R (out_t_samples (ret' ! k), out_weights (ret' ! k)) (ret' ! Suc k))"
  using assms
proof (induction "is" arbitrary: prev ret g)
  case Nil
  then show ?case by auto
next
  case (Cons i rest)
  from Cons.prems(1) obtain out g1 where
    lv: "level M self rs rnd wb i prev g = Inr (out, g1)"
    and run: "forward_levels M self rs rnd wb rest (Some (out_t_samples out, out_weights out))
                (ret @ [out]) g1 = Inr (ret', g')"
    by (auto split: sum.splits)
  from Cons.prems(2)[of i "(out_t_samples (last ret), out_weights (last ret))" g out g1] lv Cons.prems(4)
  have q: "Q out" and r: "R (out_t_samples (last ret), out_weights (last ret)) out" by auto
  have "\<exists>outs. ret' = (ret @ [out]) @ outs \<and> length outs = length rest \<and>
           (\<forall>x\<in>set outs. Q x) \<and>
           (\<forall>k. length (ret @ [out]) \<le> Suc k \<and> Suc k < length ret' \<longrightarrow>
                R (out_t_samples (ret' ! k), out_weights (ret' ! k)) (ret' ! Suc k))"
  proof (rule Cons.IH[OF run])
    fix j p h out' h1
    assume "j \<in> set rest" "level M self rs rnd wb j (Some p) h = Inr (out', h1)"
    then show "Q out' \<and> R p out'" using Cons.prems(2)[of j p h out' h1] by simp
  next
    show "ret @ [out] \<noteq> []" by simp
  next
    show "Some (out_t_samples out, out_weights out)
            = Some (out_t_samples (last (ret @ [out])), out_weights (last (ret @ [out])))"
      by simp
  qed
  then obtain outs where
    eq: "ret' = (ret @ [out]) @ outs" and len: "length outs = length rest"
    and qs: "\<forall>x\<in>set outs. Q x"
    and rs': "\<forall>k. length (ret @ [out]) \<le> Suc k \<and> Suc k < length ret' \<longrightarrow>
                R (out_t_samples (ret' ! k), out_weights (ret' ! k)) (ret' ! Suc k)"
    by blast
  have "R (out_t_samples (ret' ! k), out_weights (ret' ! k)) (ret' ! Suc k)"
    if k: "length ret \<le> Suc k" "Suc k < length ret'" for k
  proof (cases "Suc k = length ret")
    case True
    then have kk: "k = length ret - 1" by simp
    have "ret' ! k = last ret" using Cons.prems(3) eq True
      by (simp add: nth_append last_conv_nth kk)
    moreover have "ret' ! Suc k = out" using True eq by (simp add: nth_append)
    ultimately show ?thesis using r by simp
  next
    case False
    with k have "length (ret @ [out]) \<le> Suc k" by simp
    with rs' k show ?thesis by blast
  qed
  with eq len q qs show ?case by (intro exI[of _ "out # outs"]) auto
qed

text \<open>
  Claim C1. Whenever \<open>MipNerf.forward\<close> returns, for any ray batch, level count and
  flags, it returns one entry per level, in order, level 0 first (none when the level
  count is not positive). Every entry is the tuple of the composited colour, distance,
  opacity and weights that \<open>volumetric_rendering\<close> gave for that level's samples,
  followed by those samples. The samples of level 0 come from \<open>sample_along_rays\<close>,
  called from the generator state at entry, and the samples of level \<open>k + 1\<close> come
  from \<open>resample_along_rays\<close>, called on the samples and weights of level \<open>k\<close>.
\<close>

theorem forward_one_output_per_level:
  assumes run: "forward M self rs randomized white_bkgd g = Inr (ret, g')"
  shows "length ret = nat (num_levels self)
     \<and> (ret \<noteq> [] \<longrightarrow>
          (\<exists>mc g1. sample_along_rays M (origins rs) (directions rs) (radii rs) (num_samples self)
                     (near rs) (far rs) randomized (disparity self) (ray_shape self) g
                   = Inr ((out_t_samples (ret ! 0), mc), g1)))
     \<and> (\<forall>k. Suc k < length ret \<longrightarrow>
          (\<exists>mc ga gb. resample_along_rays M (origins rs) (directions rs) (radii rs)
                     (out_t_samples (ret ! k)) (out_weights (ret ! k)) randomized
                     (ray_shape self) (stop_resample_grad self) (resample_padding self) ga
                   = Inr ((out_t_samples (ret ! Suc k), mc), gb)))
     \<and> (\<forall>k < length ret.
          (\<exists>rgb density comp_rgb distance acc.
              ret ! k = (comp_rgb, distance, acc, out_weights (ret ! k), out_t_samples (ret ! k)) \<and>
              volumetric_rendering M rgb density (out_t_samples (ret ! k)) (directions rs) white_bkgd
                = Inr (comp_rgb, distance, acc, out_weights (ret ! k))))"
proof (cases "0 < num_levels self")
  case False
  with run have "ret = []" by (simp add: forward_def py_range_nonpos)
  with False show ?thesis by simp
next
  case True
  define Q where "Q = (\<lambda>out. \<exists>rgb density comp_rgb distance acc.
              out = (comp_rgb, distance, acc, out_weights out, out_t_samples out) \<and>
              volumetric_rendering M rgb density (out_t_samples out) (directions rs) white_bkgd
                = Inr (comp_rgb, distance, acc, out_weights out))"
  define R where "R = (\<lambda>p out. \<exists>mc ga gb. resample_along_rays M (origins rs) (directions rs) (radii rs)
                     (fst p) (snd p) randomized
                     (ray_shape self) (stop_resample_grad self) (resample_padding self) ga
                   = Inr ((out_t_samples out, mc), gb))"
  let ?rest = "map int [1..<nat (num_levels self)]"
  from run True obtain out0 g1 where
    lv0: "level M self rs randomized white_bkgd 0 None g = Inr (out0, g1)"
    and rest: "forward_levels M self rs randomized white_bkgd ?rest
                 (Some (out_t_samples out0, out_weights out0)) ([] @ [out0]) g1 = Inr (ret, g')"
    by (auto simp: forward_def py_range_pos split: sum.splits)
  have step: "Q out \<and> R p out"
    if "i \<in> set ?rest" "level M self rs randomized white_bkgd i (Some p) h = Inr (out, h1)"
    for i p h out h1
  proof -
    from that(1) have "i \<noteq> 0" by auto
    with level_InrD(1)[OF that(2)] have "R p out"
      by (cases p) (auto simp: R_def draw_samples_def)
    moreover from level_InrD(2)[OF that(2)] have "Q out" unfolding Q_def .
    ultimately show ?thesis by simp
  qed
  have "\<exists>outs. ret = ([] @ [out0]) @ outs \<and> length outs = length ?rest \<and> (\<forall>out\<in>set outs. Q out) \<and>
           (\<forall>k. length ([] @ [out0]) \<le> Suc k \<and> Suc k < length ret \<longrightarrow>
                R (out_t_samples (ret ! k), out_weights (ret ! k)) (ret ! Suc k))"
    by (rule forward_levels_chain[OF rest step]) auto
  then obtain outs where
    eq: "ret = out0 # outs" and len: "length outs = nat (num_levels self) - 1"
    and qs: "\<forall>out\<in>set outs. Q out"
    and rs': "\<forall>k. Suc k < length ret \<longrightarrow>
                R (out_t_samples (ret ! k), out_weights (ret ! k)) (ret ! Suc k)"
    by auto
  have q0: "Q out0" using level_InrD(2)[OF lv0] unfolding Q_def .
  have "length ret = nat (num_levels self)" using eq len True by simp
  moreover have "\<exists>mc g1. sample_along_rays M (origins rs) (directions rs) (radii rs) (num_samples self)
                     (near rs) (far rs) randomized (disparity self) (ray_shape self) g
                   = Inr ((out_t_samples (ret ! 0), mc), g1)"
    using level_InrD(1)[OF lv0] eq by (simp add: draw_samples_def)
  moreover have "\<forall>k<length ret. Q (ret ! k)"
    using q0 qs eq by (auto simp: nth_Cons split: nat.splits)
  ultimately show ?thesis using rs' unfolding Q_def R_def by simp
qed

theorem forward_one_output_per_level_witness:
  "\<not> isl (forward example_mip (example_model small_args) example_rays False False 0)
   \<and> length (fst (projr (forward example_mip (example_model small_args)
                            example_rays False False 0))) = 2"
proof -
  let ?X = "forward example_mip (example_model small_args) example_rays False False 0"
  have ok: "\<not> isl ?X" by (simp add: init_defs mlp_defs forward_defs Let_def)
  have n: "num_levels (example_model small_args) = 2" by (simp add: init_defs)
  from conjunct1[OF forward_one_output_per_level[OF Inr_projr[OF ok]]] n
  have "length (fst (projr ?X)) = 2" by simp
  with ok show ?thesis by simp
qed

section \<open>Randomness\<close>

lemma ignores_generatorD:
  "ignores_generator f \<Longrightarrow> f g = (case f g0 of Inl e \<Rightarrow> Inl e | Inr (v, g1) \<Rightarrow> Inr (v, g))"
  unfolding ignores_generator_def by blast

lemma level_ignores_generator:
  assumes "\<And>os ds rad n nr fr disp shp.
             ignores_generator (sample_along_rays M os ds rad n nr fr False disp shp)"
    and "\<And>os ds rad t w shp sg pad.
             ignores_generator (resample_along_rays M os ds rad t w False shp sg pad)"
  shows "level M self rs False wb i prev g
           = (case level M self rs False wb i prev g0 of
                Inl e \<Rightarrow> Inl e | Inr (out, g1) \<Rightarrow> Inr (out, g))"
proof -
  have d: "draw_samples M self rs False i prev g
           = (case draw_samples M self rs False i prev g0 of
                Inl e \<Rightarrow> Inl e | Inr (v, g1) \<Rightarrow> Inr (v, g))"
    unfolding draw_samples_def
    using ignores_generatorD[OF assms(1), of _ _ _ _ _ _ _ _ g g0]
          ignores_generatorD[OF assms(2), of _ _ _ _ _ _ _ _ g g0]
    by (auto split: option.splits)
  show ?thesis
    unfolding level_def d
    by (auto simp: add_noise_def split: sum.splits prod.splits)
qed

lemma forward_levels_ignores_generator:
  assumes "\<And>os ds rad n nr fr disp shp.
             ignores_generator (sample_along_rays M os ds rad n nr fr False disp shp)"
    and "\<And>os ds rad t w shp sg pad.
             ignores_generator (resample_along_rays M os ds rad t w False shp sg pad)"
  shows "forward_levels M self rs False wb is prev ret g
           = (case forward_levels M self rs False wb is prev ret g0 of
                Inl e \<Rightarrow> Inl e | Inr (r, g1) \<Rightarrow> Inr (r, g))"
proof (induction "is" arbitrary: prev ret g g0)
  case Nil
  show ?case by simp
next
  case (Cons i rest)
  note lv = level_ignores_generator[OF assms, of self rs wb i prev]
  show ?case
  proof (cases "level M self rs False wb i prev g0")
    case (Inl e)
    with lv[of g g0] show ?thesis by simp
  next
    case (Inr p)
    obtain out g1 where p: "p = (out, g1)" by (cases p)
    with Inr lv[of g g0] have a: "level M self rs False wb i prev g = Inr (out, g)" by simp
    from Inr p Cons.IH[of "Some (out_t_samples out, out_weights out)" "ret @ [out]" g g1] a
    show ?thesis by simp
  qed
qed

lemma steps_no_randn:
  "draw_samples (M\<lparr>randn := r\<rparr>) self rs rnd i prev g = draw_samples M self rs rnd i prev g"
  "encode_samples (M\<lparr>randn := r\<rparr>) self mc = encode_samples M self mc"
  "predict (M\<lparr>randn := r\<rparr>) slf rs enc = predict M slf rs enc"
  "add_noise (M\<lparr>randn := r\<rparr>) self False raw g = add_noise M self False raw g"
  "rgb_of (M\<lparr>randn := r\<rparr>) slf raw = rgb_of M slf raw"
  "density_of (M\<lparr>randn := r\<rparr>) slf raw = density_of M slf raw"
  by (simp_all add: draw_samples_def encode_samples_def predict_def add_noise_def
      rgb_of_def density_of_def split: option.splits)

lemma level_no_randn:
  "level (M\<lparr>randn := r\<rparr>) self rs False wb i prev g = level M self rs False wb i prev g"
  by (simp add: level_def steps_no_randn cong: sum.case_cong prod.case_cong)

lemma forward_levels_no_randn:
  "forward_levels (M\<lparr>randn := r\<rparr>) self rs False wb is prev ret g
     = forward_levels M self rs False wb is prev ret g"
  by (induction "is" arbitrary: prev ret g) (simp_all add: level_no_randn cong: sum.case_cong prod.case_cong)

text \<open>
  Claim C3, amended. \<open>forward\<close> takes no seed: the density noise is drawn by
  \<open>torch.randn\<close> and the samplers are only told whether to randomize, so all draws
  come from the global generator. Repeatable outputs hold for calls that are not
  randomized: \<open>forward\<close> then never calls \<open>torch.randn\<close>, and if the two samplers
  do not use the generator in that mode, \<open>forward\<close> returns the same outputs from
  every generator state and leaves the generator as it found it.
\<close>

theorem forward_not_randomized_ignores_generator:
  assumes "\<forall>os ds rad n nr fr disp shp.
             ignores_generator (sample_along_rays M os ds rad n nr fr False disp shp)"
    and "\<forall>os ds rad t w shp sg pad.
             ignores_generator (resample_along_rays M os ds rad t w False shp sg pad)"
  shows "ignores_generator (forward M self rs False white_bkgd)
       \<and> forward (M\<lparr>randn := r\<rparr>) self rs False white_bkgd g
           = forward M self rs False white_bkgd g"
  using forward_levels_ignores_generator[of M self rs white_bkgd] assms
  unfolding ignores_generator_def[of "forward M self rs False white_bkgd"] forward_def
  by (simp add: forward_levels_no_randn)


lemma example_samplers_ignore_generator:
  "ignores_generator (sample_along_rays example_mip os ds rad n nr fr False disp shp)"
  "ignores_generator (resample_along_rays example_mip os ds rad t w False shp sg pad)"
  by (simp_all add: ignores_generator_def example_mip_def example_sample_def
        example_resample_def Let_def)

theorem forward_not_randomized_ignores_generator_witness:
  "forward example_mip (example_model (small_args\<lparr>density_noise := 1\<rparr>)) example_rays False False 7
     = (case forward example_mip (example_model (small_args\<lparr>density_noise := 1\<rparr>))
               example_rays False False 0 of
          Inl e \<Rightarrow> Inl e | Inr (v, g1) \<Rightarrow> Inr (v, 7))
   \<and> \<not> isl (forward example_mip (example_model (small_args\<lparr>density_noise := 1\<rparr>))
               example_rays False False 0)"
proof -
  let ?m = "example_model (small_args\<lparr>density_noise := 1\<rparr>)"
  have h1: "\<forall>os ds rad n nr fr disp shp.
              ignores_generator (sample_along_rays example_mip os ds rad n nr fr False disp shp)"
    by (simp add: example_samplers_ignore_generator)
  have h2: "\<forall>os ds rad t w shp sg pad.
              ignores_generator (resample_along_rays example_mip os ds rad t w False shp sg pad)"
    by (simp add: example_samplers_ignore_generator)
  from conjunct1[OF forward_not_randomized_ignores_generator[OF h1 h2,
         where self = ?m and rs = example_rays and white_bkgd = False]]
  have "forward example_mip ?m example_rays False False 7
     = (case forward example_mip ?m example_rays False False 0 of
          Inl e \<Rightarrow> Inl e | Inr (v, g1) \<Rightarrow> Inr (v, 7))"
    unfolding ignores_generator_def by blast
  moreover have "\<not> isl (forward example_mip ?m example_rays False False 0)"
    by (simp add: init_defs mlp_defs forward_defs Let_def)
  ultimately show ?thesis by blast
qed

lemma exp_neg_softplus: "v \<le> 20 \<Longrightarrow> exp (- softplus v) = 1 / (1 + exp v)"
  by (simp add: softplus_def exp_minus add_pos_pos inverse_eq_divide)

text \<open>
  Claim C3, as stated: randomness is a per-call seed input, so two calls of
  \<open>forward\<close> with the same inputs return the same outputs. \<open>forward\<close> has no such
  input. With a noise scale of 1 and \<open>randomized = True\<close>, two calls in a row with the
  same arguments both return, and differ: the first weight of level 0 is
  \<open>1 - exp (- softplus 1)\<close> in the first call and \<open>1 - exp (- softplus 5)\<close> in the
  second, because the noise of the second call is drawn from the generator state that
  the first call left.
\<close>

theorem repeated_forward_calls_differ:
  "\<not> isl (two_calls example_mip (example_model (small_args\<lparr>density_noise := 1\<rparr>))
            example_rays True False 0)
   \<and> elt (out_weights (hd (fst (projr (two_calls example_mip
            (example_model (small_args\<lparr>density_noise := 1\<rparr>)) example_rays True False 0)))))
        [0, 0] = 1 - exp (- softplus 1)
   \<and> elt (out_weights (hd (snd (projr (two_calls example_mip
            (example_model (small_args\<lparr>density_noise := 1\<rparr>)) example_rays True False 0)))))
        [0, 0] = 1 - exp (- softplus 5)
   \<and> elt (out_weights (hd (fst (projr (two_calls example_mip
            (example_model (small_args\<lparr>density_noise := 1\<rparr>)) example_rays True False 0)))))
        [0, 0]
     \<noteq> elt (out_weights (hd (snd (projr (two_calls example_mip
            (example_model (small_args\<lparr>density_noise := 1\<rparr>)) example_rays True False 0)))))
        [0, 0]"
proof -
  let ?T = "two_calls example_mip (example_model (small_args\<lparr>density_noise := 1\<rparr>))
              example_rays True False 0"
  have ok: "\<not> isl ?T"
    by (simp add: two_calls_def init_defs mlp_defs forward_defs Let_def)
  have a: "elt (out_weights (hd (fst (projr ?T)))) [0, 0] = 1 - exp (- softplus 1)"
    by (simp add: two_calls_def init_defs mlp_defs forward_defs Let_def weight_of_def
          alpha_def interval_width_def upt_rec)
  have b: "elt (out_weights (hd (snd (projr ?T)))) [0, 0] = 1 - exp (- softplus 5)"
    by (simp add: two_calls_def init_defs mlp_defs forward_defs Let_def weight_of_def
          alpha_def interval_width_def upt_rec)
  have ne: "(1::real) - exp (- softplus 1) \<noteq> 1 - exp (- softplus 5)"
    by (simp add: exp_neg_softplus)
  from ok a b ne show ?thesis by simp
qed


end
